theory Spec2Isabelle
  imports Complex_Main "HOL-Library.Word"
begin

section \<open>Two quads, two fragment programs: the calls of \<open>code.c++\<close>\<close>

text \<open>
  The program is one C++ function, \<open>main\<close>, with two helpers (\<open>checkCompile\<close>,
  \<open>checkLink\<close>). Everything it does is a call into GLFW, GLAD, OpenGL or \<open>std::cout\<close>.
  The embedding therefore records the run as the list of those calls, in program order,
  each with the arguments the source passes. What the outside world answers (whether the
  window exists, compile and link statuses, the driver's information logs, the close
  flag seen by each loop test, the clock) is read from an environment record.

  Object handles are opaque integers chosen by the driver; a call names the handle by the
  program variable that holds it (\<open>vertexShader\<close>, \<open>normalShader\<close>, \<open>VBO\<close>, ...).
\<close>

subsection \<open>Handles, enumerants and data\<close>

datatype shader = vertexShader | normalFrag | waveFrag

datatype program = normalShader | waveShader

datatype vertex_array = VAO

datatype buffer = VBO | EBO

text \<open>The three global source strings, named as in the source.\<close>

datatype shader_source = vertexShaderSource | normalFragSource | waveFragSource

datatype gl_enum =
    GL_VERTEX_SHADER | GL_FRAGMENT_SHADER
  | GL_COMPILE_STATUS | GL_LINK_STATUS
  | GL_ARRAY_BUFFER | GL_ELEMENT_ARRAY_BUFFER | GL_STATIC_DRAW
  | GL_FLOAT | GL_UNSIGNED_INT | GL_TRIANGLES | GL_COLOR_BUFFER_BIT

datatype glfw_hint =
    GLFW_CONTEXT_VERSION_MAJOR | GLFW_CONTEXT_VERSION_MINOR | GLFW_OPENGL_PROFILE

datatype glfw_hint_value = Hint_int int | GLFW_OPENGL_CORE_PROFILE

text \<open>
  \<open>sizeof(float)\<close> and \<open>sizeof(unsigned int)\<close>: both 4 on every platform where the
  program's \<open>float\<close> and \<open>unsigned int\<close> arrays are what \<open>GL_FLOAT\<close> and
  \<open>GL_UNSIGNED_INT\<close> describe (32-bit values).
\<close>

definition sizeof_float :: nat where
  "sizeof_float = 4"

definition sizeof_unsigned_int :: nat where
  "sizeof_unsigned_int = 4"

text \<open>
  A \<open>float\<close> literal of the source is kept as the decimal number written there; the
  index array is \<open>unsigned int\<close>.
\<close>

datatype payload = Floats "real list" | UInts "32 word list"

definition vertices :: "real list" where
  "vertices =
    [-0.9, 0.5, 0.0,  0.0, 1.0,
     -0.9, 0.0, 0.0,  0.0, 0.0,
     -0.5, 0.0, 0.0,  1.0, 0.0,
     -0.5, 0.5, 0.0,  1.0, 1.0,

      0.5, 0.5, 0.0,  0.0, 1.0,
      0.5, 0.0, 0.0,  0.0, 0.0,
      0.9, 0.0, 0.0,  1.0, 0.0,
      0.9, 0.5, 0.0,  1.0, 1.0]"

definition indices :: "32 word list" where
  "indices =
    [0, 1, 2,  0, 2, 3,
     4, 5, 6,  4, 6, 7]"

text \<open>\<open>sizeof(vertices)\<close> and \<open>sizeof(indices)\<close>: element count times element size.\<close>

definition sizeof_vertices :: nat where
  "sizeof_vertices = length vertices * sizeof_float"

definition sizeof_indices :: nat where
  "sizeof_indices = length indices * sizeof_unsigned_int"

subsection \<open>The calls the program makes\<close>

text \<open>
  One constructor per library function the source calls, with the source's arguments.
  A call whose result the program reads carries that result as its last argument
  (\<open>glfwCreateWindow \<dots> ok\<close>: the returned pointer is non-null; \<open>glGetShaderiv s
  GL_COMPILE_STATUS ok\<close>: the value written to \<open>success\<close> is non-zero;
  \<open>glGetShaderInfoLog s 512 log\<close>: the text written to \<open>infoLog\<close>). \<open>cout\<close> is one
  statement writing to \<open>std::cout\<close>.
\<close>

datatype call =
    glfwInit
  | glfwWindowHint glfw_hint glfw_hint_value
  | glfwCreateWindow nat nat string bool
  | glfwMakeContextCurrent
  | gladLoadGLLoader bool
  | glCreateShader gl_enum shader
  | glShaderSource shader shader_source
  | glCompileShader shader
  | glGetShaderiv shader gl_enum bool
  | glGetShaderInfoLog shader nat string
  | glCreateProgram program
  | glAttachShader program shader
  | glLinkProgram program
  | glGetProgramiv program gl_enum bool
  | glGetProgramInfoLog program nat string
  | glDeleteShader shader
  | glGenVertexArrays vertex_array
  | glGenBuffers buffer
  | glBindVertexArray "vertex_array option"
  | glBindBuffer gl_enum buffer
  | glBufferData gl_enum nat payload gl_enum
  | glVertexAttribPointer nat nat gl_enum bool nat nat
  | glEnableVertexAttribArray nat
  | glfwWindowShouldClose bool
  | glClearColor real real real real
  | glClear gl_enum
  | glUseProgram program
  | glDrawElements gl_enum nat gl_enum nat
  | glfwGetTime real
  | glGetUniformLocation program string int
  | glUniform1f int real
  | glfwSwapBuffers
  | glfwPollEvents
  | glDeleteVertexArrays vertex_array
  | glDeleteBuffers buffer
  | glDeleteProgram program
  | glfwTerminate
  | cout string

subsection \<open>The environment\<close>

text \<open>
  What the window system, the loader and the driver answer. \<open>should_close k\<close> is the
  value of \<open>glfwWindowShouldClose\<close> at the loop test number \<open>k\<close> (from 0);
  \<open>get_time k\<close> and \<open>uniform_location k\<close> are what \<open>glfwGetTime\<close> and
  \<open>glGetUniformLocation\<close> return in iteration \<open>k\<close>; \<open>to_float\<close> is the conversion
  of the clock's \<open>double\<close> to the \<open>float\<close> variable \<open>timeValue\<close>. The logs are the
  driver's full information logs, of any length.
\<close>

record env =
  window_created :: bool
  glad_loaded :: bool
  compile_status :: "shader \<Rightarrow> bool"
  shader_log :: "shader \<Rightarrow> string"
  link_status :: "program \<Rightarrow> bool"
  program_log :: "program \<Rightarrow> string"
  should_close :: "nat \<Rightarrow> bool"
  get_time :: "nat \<Rightarrow> real"
  to_float :: "real \<Rightarrow> real"
  uniform_location :: "nat \<Rightarrow> int"

subsection \<open>\<open>checkCompile\<close> and \<open>checkLink\<close>\<close>

text \<open>
  \<open>char infoLog[512]\<close> filled by \<open>glGetShaderInfoLog(shader, 512, NULL, infoLog)\<close>:
  the driver writes at most 512 bytes, the terminating NUL included, so the text that
  \<open>std::cout\<close> then prints from the buffer is the first 511 characters of the log.
\<close>

definition infoLog :: "nat \<Rightarrow> string \<Rightarrow> string" where
  "infoLog bufSize driver_log = take (bufSize - 1) driver_log"

definition endl :: string where
  "endl = [CHR 0x0A]"

definition checkCompile :: "env \<Rightarrow> shader \<Rightarrow> call list" where
  "checkCompile e s =
     glGetShaderiv s GL_COMPILE_STATUS (compile_status e s) #
     (if \<not> compile_status e s
      then [glGetShaderInfoLog s 512 (infoLog 512 (shader_log e s)),
            cout (''Shader compilation error:'' @ [CHR 0x0A] @
                  infoLog 512 (shader_log e s) @ endl)]
      else [])"

definition checkLink :: "env \<Rightarrow> program \<Rightarrow> call list" where
  "checkLink e p =
     glGetProgramiv p GL_LINK_STATUS (link_status e p) #
     (if \<not> link_status e p
      then [glGetProgramInfoLog p 512 (infoLog 512 (program_log e p)),
            cout (''Program linking error:'' @ [CHR 0x0A] @
                  infoLog 512 (program_log e p) @ endl)]
      else [])"

subsection \<open>\<open>main\<close>, section by section\<close>

text \<open>Lines 92 to 116: three stages compiled, two programs linked, three stages deleted.\<close>

definition build_shaders :: "env \<Rightarrow> call list" where
  "build_shaders e =
     [glCreateShader GL_VERTEX_SHADER vertexShader,
      glShaderSource vertexShader vertexShaderSource,
      glCompileShader vertexShader] @ checkCompile e vertexShader @
     [glCreateShader GL_FRAGMENT_SHADER normalFrag,
      glShaderSource normalFrag normalFragSource,
      glCompileShader normalFrag] @ checkCompile e normalFrag @
     [glCreateShader GL_FRAGMENT_SHADER waveFrag,
      glShaderSource waveFrag waveFragSource,
      glCompileShader waveFrag] @ checkCompile e waveFrag @
     [glCreateProgram normalShader,
      glAttachShader normalShader vertexShader,
      glAttachShader normalShader normalFrag,
      glLinkProgram normalShader] @ checkLink e normalShader @
     [glCreateProgram waveShader,
      glAttachShader waveShader vertexShader,
      glAttachShader waveShader waveFrag,
      glLinkProgram waveShader] @ checkLink e waveShader @
     [glDeleteShader vertexShader,
      glDeleteShader normalFrag,
      glDeleteShader waveFrag]"

text \<open>Lines 141 to 160: the vertex array, the two buffers and the attribute layout.\<close>

definition setup_geometry :: "call list" where
  "setup_geometry =
     [glGenVertexArrays VAO,
      glGenBuffers VBO,
      glGenBuffers EBO,
      glBindVertexArray (Some VAO),
      glBindBuffer GL_ARRAY_BUFFER VBO,
      glBufferData GL_ARRAY_BUFFER sizeof_vertices (Floats vertices) GL_STATIC_DRAW,
      glBindBuffer GL_ELEMENT_ARRAY_BUFFER EBO,
      glBufferData GL_ELEMENT_ARRAY_BUFFER sizeof_indices (UInts indices) GL_STATIC_DRAW,
      glVertexAttribPointer 0 3 GL_FLOAT False (5 * sizeof_float) 0,
      glEnableVertexAttribArray 0,
      glVertexAttribPointer 1 2 GL_FLOAT False (5 * sizeof_float) (3 * sizeof_float),
      glEnableVertexAttribArray 1,
      glBindVertexArray None]"

text \<open>
  Lines 167 to 185: the body of the render loop in iteration \<open>k\<close>. The statement
  \<open>normalShader;\<close> of line 173 evaluates a variable and does nothing. The last argument
  of \<open>glDrawElements\<close> is the byte offset into the bound index buffer.
\<close>

definition frame :: "env \<Rightarrow> nat \<Rightarrow> call list" where
  "frame e k =
     [glClearColor 0.2 0.2 0.2 1.0,
      glClear GL_COLOR_BUFFER_BIT,
      glBindVertexArray (Some VAO),
      glUseProgram normalShader,
      glDrawElements GL_TRIANGLES 6 GL_UNSIGNED_INT 0,
      glUseProgram waveShader,
      glfwGetTime (get_time e k),
      glGetUniformLocation waveShader ''time'' (uniform_location e k),
      glUniform1f (uniform_location e k) (to_float e (get_time e k)),
      glDrawElements GL_TRIANGLES 6 GL_UNSIGNED_INT (6 * sizeof_unsigned_int),
      glfwSwapBuffers,
      glfwPollEvents]"

text \<open>
  Line 165: \<open>while (!glfwWindowShouldClose(window)) { ... }\<close>. The loop runs for as long
  as the window system does not ask to close, which may be forever, so it is given
  fuel: one unit per loop test. The result is the calls made and whether the loop was
  left (\<open>True\<close>) or was still running when the fuel ran out (\<open>False\<close>).
\<close>

fun render_loop :: "nat \<Rightarrow> env \<Rightarrow> nat \<Rightarrow> call list \<times> bool" where
  "render_loop 0 e k = ([], False)"
| "render_loop (Suc fuel) e k =
     (if should_close e k then ([glfwWindowShouldClose True], True)
      else (case render_loop fuel e (Suc k) of
              (rest, left) \<Rightarrow> (glfwWindowShouldClose False # frame e k @ rest, left)))"

text \<open>
  The calls of \<open>n\<close> complete iterations: \<open>n\<close> times a loop test that does not see
  a close request, followed by the loop body.
\<close>

definition loop_calls :: "env \<Rightarrow> nat \<Rightarrow> call list" where
  "loop_calls e n = concat (map (\<lambda>k. glfwWindowShouldClose False # frame e k) [0..<n])"

text \<open>Lines 189 to 195.\<close>

definition cleanup :: "call list" where
  "cleanup =
     [glDeleteVertexArrays VAO,
      glDeleteBuffers VBO,
      glDeleteBuffers EBO,
      glDeleteProgram normalShader,
      glDeleteProgram waveShader,
      glfwTerminate]"

text \<open>Lines 77 to 82 and 84 to 87.\<close>

definition create_window :: "env \<Rightarrow> call list" where
  "create_window e =
     [glfwInit,
      glfwWindowHint GLFW_CONTEXT_VERSION_MAJOR (Hint_int 3),
      glfwWindowHint GLFW_CONTEXT_VERSION_MINOR (Hint_int 3),
      glfwWindowHint GLFW_OPENGL_PROFILE GLFW_OPENGL_CORE_PROFILE,
      glfwCreateWindow 800 600 ''Two Quads One Shader Effect'' (window_created e)]"

definition load_gl :: "env \<Rightarrow> call list" where
  "load_gl e = [glfwMakeContextCurrent, gladLoadGLLoader (glad_loaded e)]"

text \<open>
  \<open>main\<close>: the calls made, and the value returned (\<open>None\<close> while the render loop has not
  been left after \<open>fuel\<close> loop tests).
\<close>

definition main :: "nat \<Rightarrow> env \<Rightarrow> call list \<times> int option" where
  "main fuel e =
     (if \<not> window_created e
      then (create_window e @ [cout (''Failed to create GLFW window'' @ [CHR 0x0A])], Some (- 1))
      else if \<not> glad_loaded e
      then (create_window e @ load_gl e @ [cout (''Failed to init GLAD'' @ [CHR 0x0A])],
            Some (- 1))
      else (case render_loop fuel e 0 of
              (frames, left) \<Rightarrow>
                if left
                then (create_window e @ load_gl e @ build_shaders e @ setup_geometry @
                      frames @ cleanup, Some 0)
                else (create_window e @ load_gl e @ build_shaders e @ setup_geometry @
                      frames, None)))"

subsection \<open>Reading a list of calls\<close>

text \<open>What \<open>std::cout\<close> received, one string per statement, in order.\<close>

definition cout_text :: "call \<Rightarrow> string list" where
  "cout_text c = (case c of cout s \<Rightarrow> [s] | _ \<Rightarrow> [])"

definition printed :: "call list \<Rightarrow> string list" where
  "printed cs = concat (map cout_text cs)"

text \<open>The information logs read back from the driver: buffer size asked for, text got.\<close>

definition info_log_read :: "call \<Rightarrow> (nat \<times> string) list" where
  "info_log_read c =
     (case c of glGetShaderInfoLog s n m \<Rightarrow> [(n, m)]
              | glGetProgramInfoLog p n m \<Rightarrow> [(n, m)]
              | _ \<Rightarrow> [])"

definition info_logs :: "call list \<Rightarrow> (nat \<times> string) list" where
  "info_logs cs = concat (map info_log_read cs)"

text \<open>
  The calls that only \<open>checkCompile\<close>, \<open>checkLink\<close> and the two fatal branches make:
  status queries, log reads and output. \<open>strip_checks\<close> keeps all the others.
\<close>

definition in_check :: "call \<Rightarrow> bool" where
  "in_check c =
     (case c of glGetShaderiv s q r \<Rightarrow> True
              | glGetShaderInfoLog s n m \<Rightarrow> True
              | glGetProgramiv p q r \<Rightarrow> True
              | glGetProgramInfoLog p n m \<Rightarrow> True
              | cout s \<Rightarrow> True
              | _ \<Rightarrow> False)"

definition strip_checks :: "call list \<Rightarrow> call list" where
  "strip_checks cs = filter (\<lambda>c. \<not> in_check c) cs"

text \<open>
  \<open>glUniform1f\<close> is addressed to the program last passed to \<open>glUseProgram\<close> (the
  current program, whenever that call succeeded). \<open>uniform_writes\<close> lists every such
  write of a call list with the program it is addressed to, given the program named at
  the start.
\<close>

definition use_program :: "program option \<Rightarrow> call \<Rightarrow> program option" where
  "use_program cur c = (case c of glUseProgram p \<Rightarrow> Some p | _ \<Rightarrow> cur)"

fun current_program :: "program option \<Rightarrow> call list \<Rightarrow> program option" where
  "current_program cur [] = cur"
| "current_program cur (c # cs) = current_program (use_program cur c) cs"

definition uniform_write :: "program option \<Rightarrow> call \<Rightarrow> (program option \<times> int \<times> real) list" where
  "uniform_write cur c = (case c of glUniform1f l v \<Rightarrow> [(cur, l, v)] | _ \<Rightarrow> [])"

fun uniform_writes :: "program option \<Rightarrow> call list \<Rightarrow> (program option \<times> int \<times> real) list" where
  "uniform_writes cur [] = []"
| "uniform_writes cur (c # cs) = uniform_write cur c @ uniform_writes (use_program cur c) cs"

text \<open>
  The indices a \<open>glDrawElements\<close> call with \<open>count\<close> indices and the given byte offset
  reads from the index array.
\<close>

definition drawn_indices :: "nat \<Rightarrow> nat \<Rightarrow> 32 word list" where
  "drawn_indices count byte_offset =
     take count (drop (byte_offset div sizeof_unsigned_int) indices)"

text \<open>
  The values vertex \<open>i\<close> gets for an attribute of \<open>n\<close> floats described by
  \<open>glVertexAttribPointer\<close> with the given stride and offset in bytes.
\<close>

definition attribute :: "nat \<Rightarrow> nat \<Rightarrow> nat \<Rightarrow> nat \<Rightarrow> real list" where
  "attribute n stride_bytes offset_bytes i =
     take n (drop (i * (stride_bytes div sizeof_float) + offset_bytes div sizeof_float)
       vertices)"

definition attrib_pointer :: "call \<Rightarrow> (nat \<times> nat \<times> gl_enum \<times> bool \<times> nat \<times> nat) list" where
  "attrib_pointer c =
     (case c of glVertexAttribPointer i n t nrm stride off \<Rightarrow> [(i, n, t, nrm, stride, off)]
              | _ \<Rightarrow> [])"

definition attribute_layout ::
  "call list \<Rightarrow> (nat \<times> nat \<times> gl_enum \<times> bool \<times> nat \<times> nat) list" where
  "attribute_layout cs = concat (map attrib_pointer cs)"

subsection \<open>Object lifetimes\<close>

datatype gpu_object =
  Shader shader | Program program | VertexArray vertex_array | Buffer buffer

definition creates :: "call \<Rightarrow> gpu_object option" where
  "creates c =
     (case c of glCreateShader t s \<Rightarrow> Some (Shader s)
              | glCreateProgram p \<Rightarrow> Some (Program p)
              | glGenVertexArrays v \<Rightarrow> Some (VertexArray v)
              | glGenBuffers b \<Rightarrow> Some (Buffer b)
              | _ \<Rightarrow> None)"

definition frees :: "call \<Rightarrow> gpu_object option" where
  "frees c =
     (case c of glDeleteShader s \<Rightarrow> Some (Shader s)
              | glDeleteProgram p \<Rightarrow> Some (Program p)
              | glDeleteVertexArrays v \<Rightarrow> Some (VertexArray v)
              | glDeleteBuffers b \<Rightarrow> Some (Buffer b)
              | _ \<Rightarrow> None)"

text \<open>
  \<open>lifetimes live cs\<close> follows the objects that exist through the calls \<open>cs\<close>. It is
  \<open>None\<close> when an object is created while it exists, or deleted while it does not
  (never created, or deleted before); otherwise \<open>Some\<close> of the objects that exist at the end.
\<close>

fun lifetimes :: "gpu_object list \<Rightarrow> call list \<Rightarrow> gpu_object list option" where
  "lifetimes live [] = Some live"
| "lifetimes live (c # cs) =
     (case creates c of
        Some obj \<Rightarrow> if obj \<in> set live then None else lifetimes (obj # live) cs
      | None \<Rightarrow>
          (case frees c of
             Some obj \<Rightarrow> if obj \<in> set live then lifetimes (removeAll obj live) cs else None
           | None \<Rightarrow> lifetimes live cs))"

definition all_objects :: "gpu_object list" where
  "all_objects =
     [Shader vertexShader, Shader normalFrag, Shader waveFrag,
      Program normalShader, Program waveShader,
      VertexArray VAO, Buffer VBO, Buffer EBO]"

definition created_count :: "call list \<Rightarrow> gpu_object \<Rightarrow> nat" where
  "created_count cs obj = length (filter (\<lambda>c. creates c = Some obj) cs)"

definition freed_count :: "call list \<Rightarrow> gpu_object \<Rightarrow> nat" where
  "freed_count cs obj = length (filter (\<lambda>c. frees c = Some obj) cs)"

subsection \<open>Buffer contents\<close>

text \<open>
  The data stores of the buffer objects, as the three buffer calls of the program act on
  them in OpenGL: \<open>glBindBuffer\<close> makes a buffer the current one of a target,
  \<open>glBufferData\<close> replaces the store of the target's current buffer, \<open>glDeleteBuffers\<close>
  discards a buffer's store and unbinds it. No other call of the program touches a store.
\<close>

record gl_buffers =
  bound :: "gl_enum \<Rightarrow> buffer option"
  store :: "buffer \<Rightarrow> payload option"

definition gl_init :: gl_buffers where
  "gl_init = \<lparr>bound = (\<lambda>t. None), store = (\<lambda>b. None)\<rparr>"

definition gl_step :: "call \<Rightarrow> gl_buffers \<Rightarrow> gl_buffers" where
  "gl_step c s =
     (case c of
        glBindBuffer t b \<Rightarrow> s\<lparr>bound := (bound s)(t := Some b)\<rparr>
      | glBufferData t n d u \<Rightarrow>
          (case bound s t of
             None \<Rightarrow> s
           | Some b \<Rightarrow> s\<lparr>store := (store s)(b := Some d)\<rparr>)
      | glDeleteBuffers b \<Rightarrow>
          s\<lparr>bound := (\<lambda>t. if bound s t = Some b then None else bound s t),
            store := (store s)(b := None)\<rparr>
      | _ \<Rightarrow> s)"

definition gl_run :: "call list \<Rightarrow> gl_buffers" where
  "gl_run cs = fold gl_step cs gl_init"

definition is_upload :: "call \<Rightarrow> bool" where
  "is_upload c = (case c of glBufferData t n d u \<Rightarrow> True | _ \<Rightarrow> False)"

definition uploads :: "call list \<Rightarrow> call list" where
  "uploads cs = filter is_upload cs"

subsection \<open>The flat fragment stage\<close>

text \<open>
  \<open>normalFragSource\<close>: the stage declares one input, \<open>TexCoord\<close>, and no uniform; its
  \<open>main\<close> assigns \<open>FragColor = vec4(0.8, 0.4, 0.2, 1.0)\<close>.
\<close>

type_synonym vec2 = "real \<times> real"

type_synonym vec4 = "real \<times> real \<times> real \<times> real"

definition normalFrag_main :: "vec2 \<Rightarrow> vec4" where
  "normalFrag_main TexCoord = (0.8, 0.4, 0.2, 1.0)"

subsection \<open>What a draw call shows\<close>

text \<open>
  What one \<open>glDrawElements\<close> call shows: the number of indices, the byte offset into the
  index buffer, the program that is current, and the colour that program's fragment stage
  gives at one texture coordinate (\<open>None\<close> when there is no program to run).
\<close>

datatype draw =
  Draw (count: nat) (byte_offset: nat) (with_program: "program option") (colour: "vec4 option")

text \<open>
  The program objects, as the calls of the source act on them in OpenGL. A shader object
  has a type and a source text. \<open>glAttachShader\<close> adds a shader to a program, and
  \<open>glLinkProgram\<close> fixes the program's fragment stage as the source of its attached
  fragment shader. Whether the link succeeded is what \<open>glGetProgramiv\<close> reports.
  \<open>glUseProgram\<close> makes a program current only if it linked; otherwise the call is an
  error and the current program stays. \<open>glUniform1f\<close> writes the value at the given
  location of the current program, and does nothing for location \<open>-1\<close>.
  \<open>glDeleteProgram\<close> is deferred while the program is current. A deleted shader stays
  in the programs linked from it, so \<open>glDeleteShader\<close> changes nothing here.
\<close>

record gl_render =
  shader_kind :: "shader \<Rightarrow> gl_enum option"
  shader_text :: "shader \<Rightarrow> shader_source option"
  attached :: "program \<Rightarrow> shader list"
  fragment_of :: "program \<Rightarrow> shader_source option"
  linked :: "program \<Rightarrow> bool"
  current :: "program option"
  uniform :: "program \<Rightarrow> int \<Rightarrow> real option"

definition render_init :: gl_render where
  "render_init =
     \<lparr>shader_kind = (\<lambda>sh. None), shader_text = (\<lambda>sh. None), attached = (\<lambda>p. []),
      fragment_of = (\<lambda>p. None), linked = (\<lambda>p. False), current = None,
      uniform = (\<lambda>p l. None)\<rparr>"

definition render_step :: "call \<Rightarrow> gl_render \<Rightarrow> gl_render" where
  "render_step c s =
     (case c of
        glCreateShader t sh \<Rightarrow> s\<lparr>shader_kind := (shader_kind s)(sh := Some t)\<rparr>
      | glShaderSource sh src \<Rightarrow> s\<lparr>shader_text := (shader_text s)(sh := Some src)\<rparr>
      | glAttachShader p sh \<Rightarrow> s\<lparr>attached := (attached s)(p := attached s p @ [sh])\<rparr>
      | glLinkProgram p \<Rightarrow>
          s\<lparr>fragment_of := (fragment_of s)
              (p := (case filter (\<lambda>sh. shader_kind s sh = Some GL_FRAGMENT_SHADER)
                            (attached s p) of
                       [] \<Rightarrow> None
                     | sh # _ \<Rightarrow> shader_text s sh))\<rparr>
      | glGetProgramiv p q ok \<Rightarrow>
          if q = GL_LINK_STATUS then s\<lparr>linked := (linked s)(p := ok)\<rparr> else s
      | glUseProgram p \<Rightarrow> if linked s p then s\<lparr>current := Some p\<rparr> else s
      | glUniform1f l v \<Rightarrow>
          (case current s of
             None \<Rightarrow> s
           | Some p \<Rightarrow>
               if l = - 1 then s
               else s\<lparr>uniform := (uniform s)(p := (uniform s p)(l := Some v))\<rparr>)
      | glDeleteProgram p \<Rightarrow>
          if current s = Some p then s else s\<lparr>linked := (linked s)(p := False)\<rparr>
      | _ \<Rightarrow> s)"

text \<open>
  What a fragment stage computes from the uniform values and the interpolated
  \<open>TexCoord\<close>. The flat stage is \<open>normalFrag_main\<close>. The wave stage computes with
  \<open>sin\<close> on \<open>float\<close>; its result is not modelled and is a parameter, \<open>wave\<close>: any
  function of the uniform values and the texture coordinate. The vertex source is not a
  fragment stage.
\<close>

definition fragment_stage ::
  "((int \<Rightarrow> real option) \<Rightarrow> vec2 \<Rightarrow> vec4) \<Rightarrow> shader_source \<Rightarrow> (int \<Rightarrow> real option) \<Rightarrow> vec2 \<Rightarrow>
     vec4 option" where
  "fragment_stage wave src u TexCoord =
     (case src of
        normalFragSource \<Rightarrow> Some (normalFrag_main TexCoord)
      | waveFragSource \<Rightarrow> Some (wave u TexCoord)
      | vertexShaderSource \<Rightarrow> None)"

text \<open>\<open>draws\<close> lists what every draw call of a call list shows, from a given state.\<close>

definition drawn ::
  "((int \<Rightarrow> real option) \<Rightarrow> vec2 \<Rightarrow> vec4) \<Rightarrow> vec2 \<Rightarrow> gl_render \<Rightarrow> call \<Rightarrow> draw list" where
  "drawn wave TexCoord s c =
     (case c of
        glDrawElements m n t off \<Rightarrow>
          [Draw n off (current s)
             (case current s of
                None \<Rightarrow> None
              | Some p \<Rightarrow>
                  (case fragment_of s p of
                     None \<Rightarrow> None
                   | Some src \<Rightarrow> fragment_stage wave src (uniform s p) TexCoord))]
      | _ \<Rightarrow> [])"

fun draws ::
  "((int \<Rightarrow> real option) \<Rightarrow> vec2 \<Rightarrow> vec4) \<Rightarrow> vec2 \<Rightarrow> gl_render \<Rightarrow> call list \<Rightarrow> draw list" where
  "draws wave TexCoord s [] = []"
| "draws wave TexCoord s (c # cs) =
     drawn wave TexCoord s c @ draws wave TexCoord (render_step c s) cs"

subsection \<open>An example run\<close>

text \<open>
  The window and the loader succeed; the wave fragment stage does not compile and the
  wave program does not link (so its uniform has no location); the window system asks
  to close after two frames, at 60 frames a second.
\<close>

definition example_run :: env where
  "example_run =
     \<lparr>window_created = True,
      glad_loaded = True,
      compile_status = (\<lambda>s. s \<noteq> waveFrag),
      shader_log = (\<lambda>s. ''0:9(1): error: syntax error''),
      link_status = (\<lambda>p. p \<noteq> waveShader),
      program_log = (\<lambda>p. ''error: linking with uncompiled shader''),
      should_close = (\<lambda>k. 2 \<le> k),
      get_time = (\<lambda>k. real k / 60),
      to_float = (\<lambda>t. t),
      uniform_location = (\<lambda>k. - 1)\<rparr>"

text \<open>The same run on a driver where every stage compiles, both programs link and \<open>time\<close>
  has location 0.\<close>

definition example_linked :: env where
  "example_linked =
     example_run\<lparr>compile_status := (\<lambda>s. True), link_status := (\<lambda>p. True),
       uniform_location := (\<lambda>k. 0)\<rparr>"

section \<open>Properties\<close>

subsection \<open>The render loop\<close>

lemma render_loop_running:
  "(\<And>j. j < n \<Longrightarrow> \<not> should_close e (k + j)) \<Longrightarrow>
   render_loop n e k =
     (concat (map (\<lambda>j. glfwWindowShouldClose False # frame e j) [k..<k + n]), False)"
proof (induction n arbitrary: k)
  case 0
  then show ?case by simp
next
  case (Suc n)
  have open_now: "\<not> should_close e k"
    using Suc.prems [of 0] by simp
  have later: "\<And>j. j < n \<Longrightarrow> \<not> should_close e (Suc k + j)"
    using Suc.prems [of "Suc _"] by simp
  have "render_loop n e (Suc k) =
     (concat (map (\<lambda>j. glfwWindowShouldClose False # frame e j) [Suc k..<Suc k + n]), False)"
    by (rule Suc.IH) (rule later)
  with open_now show ?case
    by (simp add: upt_conv_Cons del: upt_Suc)
qed

lemma render_loop_left:
  "(\<And>j. j < n \<Longrightarrow> \<not> should_close e (k + j)) \<Longrightarrow> should_close e (k + n) \<Longrightarrow> n < fuel \<Longrightarrow>
   render_loop fuel e k =
     (concat (map (\<lambda>j. glfwWindowShouldClose False # frame e j) [k..<k + n]) @
      [glfwWindowShouldClose True], True)"
proof (induction n arbitrary: k fuel)
  case 0
  then obtain f where "fuel = Suc f" by (cases fuel) auto
  with 0 show ?case by simp
next
  case (Suc n)
  then obtain f where f: "fuel = Suc f" "n < f" by (cases fuel) auto
  have open_now: "\<not> should_close e k"
    using Suc.prems(1) [of 0] by simp
  have later: "\<And>j. j < n \<Longrightarrow> \<not> should_close e (Suc k + j)"
    using Suc.prems(1) [of "Suc _"] by simp
  have "render_loop f e (Suc k) =
     (concat (map (\<lambda>j. glfwWindowShouldClose False # frame e j) [Suc k..<Suc k + n]) @
      [glfwWindowShouldClose True], True)"
    using later Suc.prems(2) f(2) by (intro Suc.IH) simp_all
  with open_now f show ?case
    by (simp add: upt_conv_Cons del: upt_Suc)
qed

lemma render_loop_snd:
  "snd (render_loop fuel e k) = (\<exists>j<fuel. should_close e (k + j))"
proof (induction fuel arbitrary: k)
  case 0
  then show ?case by simp
next
  case (Suc fuel)
  show ?case
  proof (cases "should_close e k")
    case True
    then have "\<exists>j<Suc fuel. should_close e (k + j)" by (intro exI [of _ 0]) simp
    with True show ?thesis by simp
  next
    case False
    have "(\<exists>j<Suc fuel. should_close e (k + j)) = (\<exists>j<fuel. should_close e (Suc k + j))"
    proof
      assume "\<exists>j<Suc fuel. should_close e (k + j)"
      then obtain j where j: "j < Suc fuel" "should_close e (k + j)" by blast
      with False obtain i where "j = Suc i" by (cases j) auto
      with j show "\<exists>j<fuel. should_close e (Suc k + j)" by auto
    next
      assume "\<exists>j<fuel. should_close e (Suc k + j)"
      then obtain j where "j < fuel" "should_close e (Suc k + j)" by blast
      then show "\<exists>j<Suc fuel. should_close e (k + j)"
        by (intro exI [of _ "Suc j"]) simp
    qed
    with False Suc.IH [of "Suc k"] show ?thesis
      by (simp add: case_prod_beta)
  qed
qed

lemma main_unfold:
  "main fuel e =
     (if \<not> window_created e
      then (create_window e @ [cout (''Failed to create GLFW window'' @ [CHR 0x0A])], Some (- 1))
      else if \<not> glad_loaded e
      then (create_window e @ load_gl e @ [cout (''Failed to init GLAD'' @ [CHR 0x0A])],
            Some (- 1))
      else (create_window e @ load_gl e @ build_shaders e @ setup_geometry @
            fst (render_loop fuel e 0) @ (if snd (render_loop fuel e 0) then cleanup else []),
            if snd (render_loop fuel e 0) then Some 0 else None))"
  by (simp add: main_def case_prod_beta)

lemma main_left:
  assumes "window_created e" "glad_loaded e"
    and "\<forall>k<n. \<not> should_close e k" "should_close e n" "n < fuel"
  shows "main fuel e =
     (create_window e @ load_gl e @ build_shaders e @ setup_geometry @
      loop_calls e n @ glfwWindowShouldClose True # cleanup, Some 0)"
proof -
  have "render_loop fuel e 0 = (loop_calls e n @ [glfwWindowShouldClose True], True)"
    using render_loop_left [of n e 0 fuel] assms by (simp add: loop_calls_def)
  with assms(1,2) show ?thesis by (simp add: main_unfold)
qed

lemma main_running:
  assumes "window_created e" "glad_loaded e" and "\<forall>k<fuel. \<not> should_close e k"
  shows "main fuel e =
     (create_window e @ load_gl e @ build_shaders e @ setup_geometry @ loop_calls e fuel, None)"
proof -
  have "render_loop fuel e 0 = (loop_calls e fuel, False)"
    using render_loop_running [of fuel e 0] assms by (simp add: loop_calls_def)
  with assms(1,2) show ?thesis by (simp add: main_unfold)
qed

lemma render_loop_calls:
  "c \<in> set (fst (render_loop fuel e k)) \<Longrightarrow>
     (\<exists>b. c = glfwWindowShouldClose b) \<or> (\<exists>j. c \<in> set (frame e j))"
proof (induction fuel arbitrary: k)
  case 0
  then show ?case by simp
next
  case (Suc fuel)
  show ?case
  proof (cases "should_close e k")
    case True
    with Suc.prems show ?thesis by auto
  next
    case False
    with Suc.prems have "c = glfwWindowShouldClose False \<or> c \<in> set (frame e k) \<or>
        c \<in> set (fst (render_loop fuel e (Suc k)))"
      by (simp add: case_prod_beta)
    with Suc.IH [of "Suc k"] show ?thesis by blast
  qed
qed

lemma loop_calls_calls:
  "c \<in> set (loop_calls e n) \<Longrightarrow> c = glfwWindowShouldClose False \<or> (\<exists>j. c \<in> set (frame e j))"
  by (auto simp: loop_calls_def split: if_splits)

subsection \<open>The calls of the loop leave everything else alone\<close>

lemma frame_quiet:
  "c \<in> set (frame e j) \<Longrightarrow>
     cout_text c = [] \<and> info_log_read c = [] \<and> \<not> in_check c \<and> creates c = None \<and>
     frees c = None \<and> attrib_pointer c = [] \<and> gl_step c s = s \<and> \<not> is_upload c \<and>
     c \<noteq> glGenVertexArrays VAO"
  by (auto simp: frame_def cout_text_def info_log_read_def in_check_def creates_def frees_def
      attrib_pointer_def gl_step_def is_upload_def)

lemma should_close_quiet:
  "cout_text (glfwWindowShouldClose b) = [] \<and> info_log_read (glfwWindowShouldClose b) = [] \<and>
   \<not> in_check (glfwWindowShouldClose b) \<and> creates (glfwWindowShouldClose b) = None \<and>
   frees (glfwWindowShouldClose b) = None \<and> attrib_pointer (glfwWindowShouldClose b) = [] \<and>
   gl_step (glfwWindowShouldClose b) s = s \<and> \<not> is_upload (glfwWindowShouldClose b)"
  by (simp add: cout_text_def info_log_read_def in_check_def creates_def frees_def
      attrib_pointer_def gl_step_def is_upload_def)

lemma loop_quiet:
  assumes "c \<in> set (fst (render_loop fuel e k)) \<or> c \<in> set (loop_calls e n)"
  shows "cout_text c = [] \<and> info_log_read c = [] \<and> \<not> in_check c \<and> creates c = None \<and>
     frees c = None \<and> attrib_pointer c = [] \<and> gl_step c s = s \<and> \<not> is_upload c \<and>
     c \<noteq> glGenVertexArrays VAO"
proof -
  from assms have "(\<exists>b. c = glfwWindowShouldClose b) \<or> (\<exists>j. c \<in> set (frame e j))"
    using render_loop_calls [of c fuel e k] loop_calls_calls [of c e n] by blast
  then show ?thesis
  proof
    assume "\<exists>b. c = glfwWindowShouldClose b"
    then obtain b where "c = glfwWindowShouldClose b" ..
    with should_close_quiet [of b s] show ?thesis by simp
  next
    assume "\<exists>j. c \<in> set (frame e j)"
    then obtain j where "c \<in> set (frame e j)" ..
    then show ?thesis by (rule frame_quiet)
  qed
qed

lemma printed_append: "printed (xs @ ys) = printed xs @ printed ys"
  by (simp add: printed_def)

lemma info_logs_append: "info_logs (xs @ ys) = info_logs xs @ info_logs ys"
  by (simp add: info_logs_def)

lemma strip_checks_append: "strip_checks (xs @ ys) = strip_checks xs @ strip_checks ys"
  by (simp add: strip_checks_def)

lemma attribute_layout_append:
  "attribute_layout (xs @ ys) = attribute_layout xs @ attribute_layout ys"
  by (simp add: attribute_layout_def)

lemma uploads_append: "uploads (xs @ ys) = uploads xs @ uploads ys"
  by (simp add: uploads_def)

lemma observers_Nil [simp]:
  "printed [] = []" "info_logs [] = []" "strip_checks [] = []" "attribute_layout [] = []"
  "uploads [] = []"
  by (simp_all add: printed_def info_logs_def strip_checks_def attribute_layout_def uploads_def)

lemma strip_checks_Cons:
  "strip_checks (c # cs) = (if in_check c then strip_checks cs else c # strip_checks cs)"
  by (simp add: strip_checks_def)

lemma attribute_layout_Cons:
  "attribute_layout (c # cs) = attrib_pointer c @ attribute_layout cs"
  by (simp add: attribute_layout_def)

lemma uploads_Cons: "uploads (c # cs) = (if is_upload c then c # uploads cs else uploads cs)"
  by (simp add: uploads_def)

lemma quiet_checks:
  "attribute_layout (checkCompile e s) = []" "attribute_layout (checkLink e p) = []"
  "uploads (checkCompile e s) = []" "uploads (checkLink e p) = []"
  by (simp_all add: checkCompile_def checkLink_def attribute_layout_Cons uploads_Cons
      attrib_pointer_def is_upload_def)

lemma printed_loop: "printed (fst (render_loop fuel e k)) = []"
  using loop_quiet [of _ fuel e k] by (auto simp: printed_def)

lemma info_logs_loop: "info_logs (fst (render_loop fuel e k)) = []"
  using loop_quiet [of _ fuel e k] by (auto simp: info_logs_def)

lemma attribute_layout_loop: "attribute_layout (fst (render_loop fuel e k)) = []"
  using loop_quiet [of _ fuel e k] by (auto simp: attribute_layout_def)

lemma uploads_loop: "uploads (fst (render_loop fuel e k)) = []"
  using loop_quiet [of _ fuel e k] by (auto simp: uploads_def filter_empty_conv)

lemma printed_checkCompile:
  "printed (checkCompile e s) =
     (if compile_status e s then []
      else [''Shader compilation error:'' @ [CHR 0x0A] @ take 511 (shader_log e s) @ [CHR 0x0A]])"
  by (simp add: checkCompile_def printed_def cout_text_def infoLog_def endl_def)

lemma printed_checkLink:
  "printed (checkLink e p) =
     (if link_status e p then []
      else [''Program linking error:'' @ [CHR 0x0A] @ take 511 (program_log e p) @ [CHR 0x0A]])"
  by (simp add: checkLink_def printed_def cout_text_def infoLog_def endl_def)

lemma info_logs_checkCompile:
  "info_logs (checkCompile e s) =
     (if compile_status e s then [] else [(512, take 511 (shader_log e s))])"
  by (simp add: checkCompile_def info_logs_def info_log_read_def infoLog_def)

lemma info_logs_checkLink:
  "info_logs (checkLink e p) =
     (if link_status e p then [] else [(512, take 511 (program_log e p))])"
  by (simp add: checkLink_def info_logs_def info_log_read_def infoLog_def)

lemma strip_checks_check [simp]:
  "strip_checks (checkCompile e s) = []" "strip_checks (checkLink e p) = []"
  by (simp_all add: checkCompile_def checkLink_def strip_checks_def in_check_def)

lemma printed_fixed:
  "printed (create_window e) = []" "printed (load_gl e) = []" "printed setup_geometry = []"
  "printed cleanup = []"
  by (simp_all add: create_window_def load_gl_def setup_geometry_def cleanup_def printed_def
      cout_text_def)

lemma info_logs_fixed:
  "info_logs (create_window e) = []" "info_logs (load_gl e) = []"
  "info_logs setup_geometry = []" "info_logs cleanup = []"
  by (simp_all add: create_window_def load_gl_def setup_geometry_def cleanup_def info_logs_def
      info_log_read_def)

lemma printed_build_shaders:
  "printed (build_shaders e) =
     printed (checkCompile e vertexShader) @ printed (checkCompile e normalFrag) @
     printed (checkCompile e waveFrag) @ printed (checkLink e normalShader) @
     printed (checkLink e waveShader)"
  by (simp add: build_shaders_def printed_append) (simp add: printed_def cout_text_def)

lemma info_logs_build_shaders:
  "info_logs (build_shaders e) =
     info_logs (checkCompile e vertexShader) @ info_logs (checkCompile e normalFrag) @
     info_logs (checkCompile e waveFrag) @ info_logs (checkLink e normalShader) @
     info_logs (checkLink e waveShader)"
  by (simp add: build_shaders_def info_logs_append) (simp add: info_logs_def info_log_read_def)

lemma printed_main:
  "window_created e \<Longrightarrow> glad_loaded e \<Longrightarrow>
   printed (fst (main fuel e)) =
     printed (checkCompile e vertexShader) @ printed (checkCompile e normalFrag) @
     printed (checkCompile e waveFrag) @ printed (checkLink e normalShader) @
     printed (checkLink e waveShader)"
  by (simp add: main_unfold printed_append printed_fixed printed_loop printed_build_shaders)

lemma info_logs_main:
  "list_all (\<lambda>(n, m). n = 512 \<and> length m + 1 \<le> n) (info_logs (fst (main fuel e)))"
  by (simp add: main_unfold info_logs_append info_logs_fixed info_logs_loop
      info_logs_build_shaders info_logs_checkCompile info_logs_checkLink)
    (simp add: info_logs_def info_log_read_def)

lemma strip_checks_build_shaders:
  "strip_checks (build_shaders e) =
     [glCreateShader GL_VERTEX_SHADER vertexShader,
      glShaderSource vertexShader vertexShaderSource,
      glCompileShader vertexShader,
      glCreateShader GL_FRAGMENT_SHADER normalFrag,
      glShaderSource normalFrag normalFragSource,
      glCompileShader normalFrag,
      glCreateShader GL_FRAGMENT_SHADER waveFrag,
      glShaderSource waveFrag waveFragSource,
      glCompileShader waveFrag,
      glCreateProgram normalShader,
      glAttachShader normalShader vertexShader,
      glAttachShader normalShader normalFrag,
      glLinkProgram normalShader,
      glCreateProgram waveShader,
      glAttachShader waveShader vertexShader,
      glAttachShader waveShader waveFrag,
      glLinkProgram waveShader,
      glDeleteShader vertexShader,
      glDeleteShader normalFrag,
      glDeleteShader waveFrag]"
  by (simp add: build_shaders_def strip_checks_append strip_checks_Cons in_check_def)

lemma render_loop_statuses:
  "render_loop fuel (e\<lparr>compile_status := cs, shader_log := sl, link_status := ls,
      program_log := pl\<rparr>) k = render_loop fuel e k"
  by (induction fuel arbitrary: k) (simp_all add: frame_def)

lemma strip_checks_main:
  "strip_checks (fst (main fuel (e\<lparr>compile_status := cs, shader_log := sl, link_status := ls,
      program_log := pl\<rparr>))) = strip_checks (fst (main fuel e))"
  by (simp add: main_unfold strip_checks_append strip_checks_build_shaders render_loop_statuses
      create_window_def load_gl_def del: append_Cons)

lemma snd_main_statuses:
  "snd (main fuel (e\<lparr>compile_status := cs, shader_log := sl, link_status := ls,
      program_log := pl\<rparr>)) = snd (main fuel e)"
  by (simp add: main_unfold render_loop_statuses)

text \<open>
  \<^bold>\<open>Claim C3.\<close> \<open>checkCompile\<close> and \<open>checkLink\<close> begin with the status query. When
  the status is success they print nothing and read no log. When it is failure they read
  the information log into the 512-byte buffer, so at most 511 characters and the
  terminating NUL, and print one line: a fixed header, that text, a newline. In a whole
  run every log read fits the buffer. Neither failure ends the run: whatever the five
  statuses and logs are, \<open>main\<close> makes the same calls outside the checks and returns
  the same value, and when the window and the loader were obtained its output is that of
  the five checks, in order.
\<close>

theorem check_reports:
  "take 1 (checkCompile e s) = [glGetShaderiv s GL_COMPILE_STATUS (compile_status e s)] \<and>
   take 1 (checkLink e p) = [glGetProgramiv p GL_LINK_STATUS (link_status e p)] \<and>
   printed (checkCompile e s) =
     (if compile_status e s then []
      else [''Shader compilation error:'' @ [CHR 0x0A] @ take 511 (shader_log e s) @ [CHR 0x0A]]) \<and>
   printed (checkLink e p) =
     (if link_status e p then []
      else [''Program linking error:'' @ [CHR 0x0A] @ take 511 (program_log e p) @ [CHR 0x0A]]) \<and>
   info_logs (checkCompile e s) =
     (if compile_status e s then [] else [(512, take 511 (shader_log e s))]) \<and>
   info_logs (checkLink e p) =
     (if link_status e p then [] else [(512, take 511 (program_log e p))]) \<and>
   list_all (\<lambda>(n, m). n = 512 \<and> length m + 1 \<le> n) (info_logs (fst (main fuel e))) \<and>
   strip_checks (fst (main fuel (e\<lparr>compile_status := cs, shader_log := sl, link_status := ls,
      program_log := pl\<rparr>))) = strip_checks (fst (main fuel e)) \<and>
   snd (main fuel (e\<lparr>compile_status := cs, shader_log := sl, link_status := ls,
      program_log := pl\<rparr>)) = snd (main fuel e) \<and>
   (window_created e \<and> glad_loaded e \<longrightarrow>
      printed (fst (main fuel e)) =
        printed (checkCompile e vertexShader) @ printed (checkCompile e normalFrag) @
        printed (checkCompile e waveFrag) @ printed (checkLink e normalShader) @
        printed (checkLink e waveShader))"
proof -
  have c1: "take 1 (checkCompile e s) = [glGetShaderiv s GL_COMPILE_STATUS (compile_status e s)]"
    by (simp add: checkCompile_def)
  have c2: "take 1 (checkLink e p) = [glGetProgramiv p GL_LINK_STATUS (link_status e p)]"
    by (simp add: checkLink_def)
  have c3: "window_created e \<and> glad_loaded e \<Longrightarrow>
      printed (fst (main fuel e)) =
        printed (checkCompile e vertexShader) @ printed (checkCompile e normalFrag) @
        printed (checkCompile e waveFrag) @ printed (checkLink e normalShader) @
        printed (checkLink e waveShader)"
    by (simp add: printed_main)
  show ?thesis
    apply (rule conjI, rule c1)
    apply (rule conjI, rule c2)
    apply (rule conjI, rule printed_checkCompile)
    apply (rule conjI, rule printed_checkLink)
    apply (rule conjI, rule info_logs_checkCompile)
    apply (rule conjI, rule info_logs_checkLink)
    apply (rule conjI, rule info_logs_main)
    apply (rule conjI, rule strip_checks_main)
    apply (rule conjI, rule snd_main_statuses)
    apply (rule impI, erule c3)
    done
qed

theorem check_reports_example:
  "window_created example_run \<and> glad_loaded example_run \<and>
   printed (fst (main 3 example_run)) =
     [''Shader compilation error:'' @ [CHR 0x0A] @ ''0:9(1): error: syntax error'' @ [CHR 0x0A],
      ''Program linking error:'' @ [CHR 0x0A] @ ''error: linking with uncompiled shader'' @
        [CHR 0x0A]]"
proof -
  note r = check_reports [where e = example_run and s = waveFrag and p = waveShader and fuel = 3
      and cs = "compile_status example_run" and sl =
      "shader_log example_run" and ls = "link_status example_run"
      and pl = "program_log example_run"]
  have ok: "window_created example_run \<and> glad_loaded example_run"
    by (simp add: example_run_def)
  from r have "window_created example_run \<and> glad_loaded example_run \<longrightarrow>
      printed (fst (main 3 example_run)) =
        printed (checkCompile example_run vertexShader) @
        printed (checkCompile example_run normalFrag) @
        printed (checkCompile example_run waveFrag) @
        printed (checkLink example_run normalShader) @
        printed (checkLink example_run waveShader)"
    by (elim conjE)
  with ok have "printed (fst (main 3 example_run)) =
        printed (checkCompile example_run vertexShader) @
        printed (checkCompile example_run normalFrag) @
        printed (checkCompile example_run waveFrag) @
        printed (checkLink example_run normalShader) @
        printed (checkLink example_run waveShader)"
    by (rule rev_mp)
  then have "printed (fst (main 3 example_run)) =
     [''Shader compilation error:'' @ [CHR 0x0A] @ ''0:9(1): error: syntax error'' @ [CHR 0x0A],
      ''Program linking error:'' @ [CHR 0x0A] @ ''error: linking with uncompiled shader'' @
        [CHR 0x0A]]"
    by (simp add: printed_checkCompile printed_checkLink) (simp add: example_run_def)
  with ok show ?thesis by (intro conjI) (erule conjunct1, erule conjunct2, assumption)
qed

subsection \<open>Object lifetimes through a run\<close>

lemma lifetimes_append:
  "lifetimes live (xs @ ys) =
     (case lifetimes live xs of None \<Rightarrow> None | Some l \<Rightarrow> lifetimes l ys)"
  by (induction xs arbitrary: live) (simp_all split: option.splits)

lemma lifetimes_neutral:
  "(\<And>c. c \<in> set cs \<Longrightarrow> creates c = None \<and> frees c = None) \<Longrightarrow> lifetimes live cs = Some live"
  by (induction cs arbitrary: live) simp_all

lemma lifetimes_loop_calls: "lifetimes live (loop_calls e n) = Some live"
  using loop_quiet [of _ 0 e 0 n] by (intro lifetimes_neutral) simp

lemma lifetimes_checkCompile: "lifetimes live (checkCompile e s) = Some live"
  by (rule lifetimes_neutral) (auto simp: checkCompile_def creates_def frees_def)

lemma lifetimes_checkLink: "lifetimes live (checkLink e p) = Some live"
  by (rule lifetimes_neutral) (auto simp: checkLink_def creates_def frees_def)

lemma lifetimes_create_window:
  "lifetimes live (create_window e) = Some live" "lifetimes live (load_gl e) = Some live"
  by (rule lifetimes_neutral, auto simp: create_window_def load_gl_def creates_def frees_def)+

lemma lifetimes_check_absorb:
  "lifetimes live (checkCompile e s @ cs) = lifetimes live cs"
  "lifetimes live (checkLink e p @ cs) = lifetimes live cs"
  by (simp_all add: lifetimes_append lifetimes_checkCompile lifetimes_checkLink)

lemma lifetimes_build_shaders:
  "lifetimes [] (build_shaders e) = Some [Program waveShader, Program normalShader]"
  by (simp add: build_shaders_def lifetimes_check_absorb creates_def frees_def)

lemma lifetimes_setup_geometry:
  "lifetimes [Program waveShader, Program normalShader] setup_geometry =
     Some [Buffer EBO, Buffer VBO, VertexArray VAO, Program waveShader, Program normalShader]"
  by (simp add: setup_geometry_def creates_def frees_def)

lemma lifetimes_cleanup:
  "lifetimes [Buffer EBO, Buffer VBO, VertexArray VAO, Program waveShader, Program normalShader]
     (glfwWindowShouldClose True # cleanup) = Some []"
  by (simp add: cleanup_def creates_def frees_def)

lemma lifetimes_main:
  assumes "window_created e" "glad_loaded e"
    and "\<forall>k<n. \<not> should_close e k" "should_close e n" "n < fuel"
  shows "lifetimes [] (fst (main fuel e)) = Some []"
proof -
  have "fst (main fuel e) =
      create_window e @ load_gl e @ build_shaders e @ setup_geometry @ loop_calls e n @
      (glfwWindowShouldClose True # cleanup)"
    using main_left [OF assms] by simp
  then show ?thesis
    by (simp only: lifetimes_append lifetimes_create_window lifetimes_build_shaders
        lifetimes_setup_geometry lifetimes_loop_calls lifetimes_cleanup option.case)
qed

lemma count_append:
  "created_count (xs @ ys) obj = created_count xs obj + created_count ys obj"
  "freed_count (xs @ ys) obj = freed_count xs obj + freed_count ys obj"
  by (simp_all add: created_count_def freed_count_def)

lemma count_neutral:
  assumes "\<And>c. c \<in> set cs \<Longrightarrow> creates c = None \<and> frees c = None"
  shows "created_count cs obj = 0" "freed_count cs obj = 0"
  using assms by (auto simp: created_count_def freed_count_def filter_empty_conv)

lemma count_quiet:
  "created_count (loop_calls e n) obj = 0" "freed_count (loop_calls e n) obj = 0"
  "created_count (checkCompile e s) obj = 0" "freed_count (checkCompile e s) obj = 0"
  "created_count (checkLink e p) obj = 0" "freed_count (checkLink e p) obj = 0"
  "created_count (create_window e) obj = 0" "freed_count (create_window e) obj = 0"
  "created_count (load_gl e) obj = 0" "freed_count (load_gl e) obj = 0"
proof -
  show "created_count (loop_calls e n) obj = 0" "freed_count (loop_calls e n) obj = 0"
    using loop_quiet [of _ 0 e 0 n] by (intro count_neutral; simp)+
  show "created_count (checkCompile e s) obj = 0" "freed_count (checkCompile e s) obj = 0"
    by (intro count_neutral; auto simp: checkCompile_def creates_def frees_def)+
  show "created_count (checkLink e p) obj = 0" "freed_count (checkLink e p) obj = 0"
    by (intro count_neutral; auto simp: checkLink_def creates_def frees_def)+
  show "created_count (create_window e) obj = 0" "freed_count (create_window e) obj = 0"
    by (intro count_neutral; auto simp: create_window_def creates_def frees_def)+
  show "created_count (load_gl e) obj = 0" "freed_count (load_gl e) obj = 0"
    by (intro count_neutral; auto simp: load_gl_def creates_def frees_def)+
qed

lemma count_Cons:
  "created_count (c # cs) obj = (if creates c = Some obj then 1 else 0) + created_count cs obj"
  "freed_count (c # cs) obj = (if frees c = Some obj then 1 else 0) + freed_count cs obj"
  "created_count [] obj = 0" "freed_count [] obj = 0"
  by (simp_all add: created_count_def freed_count_def)

lemma counts_main:
  assumes "window_created e" "glad_loaded e"
    and "\<forall>k<n. \<not> should_close e k" "should_close e n" "n < fuel"
  shows "map (created_count (fst (main fuel e))) all_objects = [1, 1, 1, 1, 1, 1, 1, 1]"
    and "map (freed_count (fst (main fuel e))) all_objects = [1, 1, 1, 1, 1, 1, 1, 1]"
proof -
  have tr: "fst (main fuel e) =
      create_window e @ load_gl e @ build_shaders e @ setup_geometry @ loop_calls e n @
      [glfwWindowShouldClose True] @ cleanup"
    using main_left [OF assms] by simp
  show "map (created_count (fst (main fuel e))) all_objects = [1, 1, 1, 1, 1, 1, 1, 1]"
    unfolding tr build_shaders_def
    by (simp add: count_append count_quiet all_objects_def setup_geometry_def cleanup_def
        count_Cons creates_def)
  show "map (freed_count (fst (main fuel e))) all_objects = [1, 1, 1, 1, 1, 1, 1, 1]"
    unfolding tr build_shaders_def
    by (simp add: count_append count_quiet all_objects_def setup_geometry_def cleanup_def
        count_Cons frees_def)
qed

subsection \<open>The first iterations of any run\<close>

lemma render_loop_prefix:
  "(\<And>j. j < n \<Longrightarrow> \<not> should_close e (k + j)) \<Longrightarrow> n \<le> fuel \<Longrightarrow>
   render_loop fuel e k =
     (concat (map (\<lambda>j. glfwWindowShouldClose False # frame e j) [k..<k + n]) @
        fst (render_loop (fuel - n) e (k + n)),
      snd (render_loop (fuel - n) e (k + n)))"
proof (induction n arbitrary: k fuel)
  case 0
  then show ?case by simp
next
  case (Suc n)
  then obtain f where f: "fuel = Suc f" "n \<le> f" by (cases fuel) auto
  have open_now: "\<not> should_close e k"
    using Suc.prems(1) [of 0] by simp
  have later: "\<And>j. j < n \<Longrightarrow> \<not> should_close e (Suc k + j)"
    using Suc.prems(1) [of "Suc _"] by simp
  have "render_loop f e (Suc k) =
     (concat (map (\<lambda>j. glfwWindowShouldClose False # frame e j) [Suc k..<Suc k + n]) @
        fst (render_loop (f - n) e (Suc k + n)),
      snd (render_loop (f - n) e (Suc k + n)))"
    using later f(2) by (intro Suc.IH) simp_all
  with open_now f show ?case
    by (simp add: upt_conv_Cons del: upt_Suc)
qed

lemma loop_calls_Suc:
  "loop_calls e (Suc n) = loop_calls e n @ glfwWindowShouldClose False # frame e n"
  by (simp add: loop_calls_def)

subsection \<open>Uniform writes\<close>

lemma uniform_writes_append:
  "uniform_writes cur (xs @ ys) =
     uniform_writes cur xs @ uniform_writes (current_program cur xs) ys"
  by (induction xs arbitrary: cur) simp_all

lemma current_program_append:
  "current_program cur (xs @ ys) = current_program (current_program cur xs) ys"
  by (induction xs arbitrary: cur) simp_all

lemma uniform_writes_frame:
  "uniform_writes cur (glfwWindowShouldClose False # frame e k) =
     [(Some waveShader, uniform_location e k, to_float e (get_time e k))]"
  "current_program cur (glfwWindowShouldClose False # frame e k) = Some waveShader"
  by (simp_all add: frame_def uniform_write_def use_program_def)

lemma uniform_writes_loop_calls:
  "uniform_writes cur (loop_calls e n) =
     map (\<lambda>k. (Some waveShader, uniform_location e k, to_float e (get_time e k))) [0..<n]"
proof (induction n)
  case 0
  then show ?case by (simp add: loop_calls_def)
next
  case (Suc n)
  then show ?case
    by (simp only: loop_calls_Suc uniform_writes_append uniform_writes_frame upt_Suc_append
        map_append list.map le0 if_True)
qed

text \<open>
  \<^bold>\<open>Claim C1.\<close> In every iteration of the render loop that starts because the loop test
  saw no close request, the calls are, in this order: clear colour (0.2, 0.2, 0.2, 1) and
  clear of the colour buffer; bind \<open>VAO\<close>; use the flat program and draw 6 indices from
  byte offset 0 (index 0); use the wave program, read the clock, look up the location of
  \<open>time\<close>, write the clock value to it, and only then draw 6 indices from byte offset
  \<open>6 * sizeof(unsigned int)\<close> (index 6); swap buffers and poll events. So whenever the
  first \<open>n\<close> loop tests of a run see no close request, the loop's calls start with
  \<open>n\<close> such iterations; each \<open>glUniform1f\<close> of them is made while the wave program is
  current, with the clock value read in the same iteration; none is made while the flat
  program is current.
\<close>

theorem frame_sequence:
  assumes "\<forall>k<n. \<not> should_close e k" and "n \<le> fuel"
  shows "fst (render_loop fuel e 0) = loop_calls e n @ fst (render_loop (fuel - n) e n) \<and>
    loop_calls e n =
      concat (map (\<lambda>k.
        [glfwWindowShouldClose False,
         glClearColor 0.2 0.2 0.2 1.0,
         glClear GL_COLOR_BUFFER_BIT,
         glBindVertexArray (Some VAO),
         glUseProgram normalShader,
         glDrawElements GL_TRIANGLES 6 GL_UNSIGNED_INT 0,
         glUseProgram waveShader,
         glfwGetTime (get_time e k),
         glGetUniformLocation waveShader ''time'' (uniform_location e k),
         glUniform1f (uniform_location e k) (to_float e (get_time e k)),
         glDrawElements GL_TRIANGLES 6 GL_UNSIGNED_INT (6 * sizeof_unsigned_int),
         glfwSwapBuffers,
         glfwPollEvents]) [0..<n]) \<and>
    uniform_writes cur (loop_calls e n) =
      map (\<lambda>k. (Some waveShader, uniform_location e k, to_float e (get_time e k))) [0..<n] \<and>
    drawn_indices 6 0 = take 6 indices \<and>
    drawn_indices 6 (6 * sizeof_unsigned_int) = take 6 (drop 6 indices)"
proof -
  have "render_loop fuel e 0 =
     (loop_calls e n @ fst (render_loop (fuel - n) e n), snd (render_loop (fuel - n) e n))"
    using render_loop_prefix [of n e 0 fuel] assms by (simp add: loop_calls_def)
  then have first: "fst (render_loop fuel e 0) = loop_calls e n @ fst (render_loop (fuel - n) e n)"
    by simp
  have shape: "loop_calls e n =
      concat (map (\<lambda>k.
        [glfwWindowShouldClose False,
         glClearColor 0.2 0.2 0.2 1.0,
         glClear GL_COLOR_BUFFER_BIT,
         glBindVertexArray (Some VAO),
         glUseProgram normalShader,
         glDrawElements GL_TRIANGLES 6 GL_UNSIGNED_INT 0,
         glUseProgram waveShader,
         glfwGetTime (get_time e k),
         glGetUniformLocation waveShader ''time'' (uniform_location e k),
         glUniform1f (uniform_location e k) (to_float e (get_time e k)),
         glDrawElements GL_TRIANGLES 6 GL_UNSIGNED_INT (6 * sizeof_unsigned_int),
         glfwSwapBuffers,
         glfwPollEvents]) [0..<n])"
    by (simp add: loop_calls_def frame_def)
  have draws: "drawn_indices 6 0 = take 6 indices"
    "drawn_indices 6 (6 * sizeof_unsigned_int) = take 6 (drop 6 indices)"
    by (simp_all add: drawn_indices_def sizeof_unsigned_int_def)
  from first shape uniform_writes_loop_calls [of cur e n] draws show ?thesis
    by (intro conjI)
qed

theorem frame_sequence_example:
  "\<not> should_close example_run 0 \<and> \<not> should_close example_run 1 \<and> (2::nat) \<le> 3 \<and>
   fst (render_loop 3 example_run 0) = loop_calls example_run 2 @ [glfwWindowShouldClose True] \<and>
   uniform_writes None (loop_calls example_run 2) =
     [(Some waveShader, - 1, 0), (Some waveShader, - 1, 1 / 60)]"
proof -
  have open2: "\<forall>k<2. \<not> should_close example_run k"
    by (simp add: example_run_def)
  have fuel: "(2::nat) \<le> 3"
    by simp
  note r = frame_sequence [OF open2 fuel, of None]
  from r have first:
    "fst (render_loop 3 example_run 0) =
       loop_calls example_run 2 @ fst (render_loop (3 - 2) example_run 2)"
    by (elim conjE)
  from r have writes:
    "uniform_writes None (loop_calls example_run 2) =
       map (\<lambda>k. (Some waveShader, uniform_location example_run k,
          to_float example_run (get_time example_run k))) [0..<2]"
    by (elim conjE)
  have rest: "render_loop (3 - 2) example_run 2 = ([glfwWindowShouldClose True], True)"
    by (simp add: example_run_def)
  have evaluated: "map (\<lambda>k. (Some waveShader, uniform_location example_run k,
          to_float example_run (get_time example_run k))) [0..<2] =
        [(Some waveShader, - 1, 0), (Some waveShader, - 1, 1 / 60)]"
    by (simp add: example_run_def upt_conv_Cons)
  have "\<not> should_close example_run 0 \<and> \<not> should_close example_run 1"
    using open2 by simp
  with first writes show ?thesis
    unfolding rest evaluated by simp
qed

subsection \<open>The index buffer\<close>

text \<open>
  \<^bold>\<open>Claim C2.\<close> The index array has exactly 12 entries, all at most 7. The first draw
  call of a frame (6 indices from byte offset 0) reads the first six, which are all among
  0, 1, 2, 3; the second (6 indices from byte offset \<open>6 * sizeof(unsigned int)\<close>) reads
  the last six, which are all among 4, 5, 6, 7. No index occurs in both halves.
\<close>

theorem index_buffer_quads:
  "length indices = 12 \<and>
   list_all (\<lambda>i. 0 \<le> i \<and> i \<le> 7) indices \<and>
   drawn_indices 6 0 = take 6 indices \<and>
   drawn_indices 6 (6 * sizeof_unsigned_int) = drop 6 indices \<and>
   set (take 6 indices) \<subseteq> {0, 1, 2, 3} \<and>
   set (drop 6 indices) \<subseteq> {4, 5, 6, 7} \<and>
   set (take 6 indices) \<inter> set (drop 6 indices) = {}"
  by (simp add: indices_def drawn_indices_def sizeof_unsigned_int_def)

subsection \<open>Exit codes\<close>

lemma should_close_True_render_loop:
  "(glfwWindowShouldClose True \<in> set (fst (render_loop fuel e k))) = snd (render_loop fuel e k)"
  by (induction fuel arbitrary: k) (auto simp: case_prod_beta frame_def)

lemma main_code:
  "snd (main fuel e) =
     (if window_created e \<and> glad_loaded e
      then (if \<exists>k<fuel. should_close e k then Some 0 else None)
      else Some (- 1))"
  using render_loop_snd [of fuel e 0]
  by (auto simp add: main_unfold)

lemma main_code_0:
  "(snd (main fuel e) = Some 0) = (glfwWindowShouldClose True \<in> set (fst (main fuel e)))"
proof -
  have "glfwWindowShouldClose True \<notin> set (create_window e)"
    "glfwWindowShouldClose True \<notin> set (load_gl e)"
    "glfwWindowShouldClose True \<notin> set (build_shaders e)"
    "glfwWindowShouldClose True \<notin> set setup_geometry"
    "glfwWindowShouldClose True \<notin> set cleanup"
    by (simp_all add: create_window_def load_gl_def build_shaders_def setup_geometry_def
        cleanup_def checkCompile_def checkLink_def)
  then show ?thesis
    by (simp add: main_unfold should_close_True_render_loop)
qed

lemma main_code_failed:
  "(snd (main fuel e) = Some (- 1)) =
     (glfwCreateWindow 800 600 ''Two Quads One Shader Effect'' False \<in> set (fst (main fuel e)) \<or>
      gladLoadGLLoader False \<in> set (fst (main fuel e)))"
proof -
  have "c \<in> set (build_shaders e @ setup_geometry @ fst (render_loop fuel e 0) @
          (if snd (render_loop fuel e 0) then cleanup else [])) \<Longrightarrow>
        c \<noteq> glfwCreateWindow w h t b \<and> c \<noteq> gladLoadGLLoader b" for c w h t b
    using render_loop_calls [of c fuel e 0]
    by (auto simp: build_shaders_def setup_geometry_def cleanup_def checkCompile_def
        checkLink_def frame_def split: if_splits)
  then have "glfwCreateWindow 800 600 ''Two Quads One Shader Effect'' False \<notin>
        set (build_shaders e @ setup_geometry @ fst (render_loop fuel e 0) @
          (if snd (render_loop fuel e 0) then cleanup else []))"
      "gladLoadGLLoader False \<notin>
        set (build_shaders e @ setup_geometry @ fst (render_loop fuel e 0) @
          (if snd (render_loop fuel e 0) then cleanup else []))"
    by blast+
  then show ?thesis
    by (simp add: main_unfold create_window_def load_gl_def)
qed

text \<open>
  \<^bold>\<open>Claim C4.\<close> \<open>main\<close> returns 0 exactly when the window and the loader were obtained
  and a loop test saw the close request (the call \<open>glfwWindowShouldClose\<close> answering
  true is in the run); it returns \<open>-1\<close> exactly when window creation or loader
  initialisation failed; in every other case the render loop is still running. There is
  no other return value.
\<close>

theorem exit_codes:
  "snd (main fuel e) =
     (if window_created e \<and> glad_loaded e
      then (if \<exists>k<fuel. should_close e k then Some 0 else None)
      else Some (- 1)) \<and>
   (snd (main fuel e) = Some 0) = (glfwWindowShouldClose True \<in> set (fst (main fuel e))) \<and>
   (snd (main fuel e) = Some (- 1)) =
     (glfwCreateWindow 800 600 ''Two Quads One Shader Effect'' False \<in> set (fst (main fuel e)) \<or>
      gladLoadGLLoader False \<in> set (fst (main fuel e)))"
  using main_code [of fuel e] main_code_0 [of fuel e] main_code_failed [of fuel e]
  by (intro conjI)

subsection \<open>Leaving the loop and releasing the objects\<close>

lemma swaps_loop_calls:
  "length (filter (\<lambda>c. c = glfwSwapBuffers) (loop_calls e n)) = n"
  by (induction n) (simp_all add: loop_calls_Suc, simp_all add: loop_calls_def frame_def)

lemma swaps_main:
  assumes "window_created e" "glad_loaded e"
    and "\<forall>k<n. \<not> should_close e k" "should_close e n" "n < fuel"
  shows "length (filter (\<lambda>c. c = glfwSwapBuffers) (fst (main fuel e))) = n"
proof -
  have "filter (\<lambda>c. c = glfwSwapBuffers) (create_window e) = []"
    "filter (\<lambda>c. c = glfwSwapBuffers) (load_gl e) = []"
    "filter (\<lambda>c. c = glfwSwapBuffers) (build_shaders e) = []"
    "filter (\<lambda>c. c = glfwSwapBuffers) setup_geometry = []"
    "filter (\<lambda>c. c = glfwSwapBuffers) cleanup = []"
    by (simp_all add: create_window_def load_gl_def build_shaders_def setup_geometry_def
        cleanup_def checkCompile_def checkLink_def)
  then show ?thesis
    using main_left [OF assms] swaps_loop_calls [of e n] by simp
qed

text \<open>
  \<^bold>\<open>Claim C5.\<close> Let the close request be first seen by loop test number \<open>n\<close>, that
  is, let it have arrived during iteration \<open>n - 1\<close> (or before the loop, for \<open>n = 0\<close>).
  Then the loop makes exactly \<open>n\<close> iterations: the one in progress when the request
  arrived is the last, the test that sees the request is followed at once by the cleanup
  calls, and \<open>main\<close> returns 0. At that return no object the program created is left:
  every shader, program, buffer and vertex array has been deleted.
\<close>

theorem close_request_leaves_loop:
  assumes "window_created e" "glad_loaded e"
    and "\<forall>k<n. \<not> should_close e k" "should_close e n" "n < fuel"
  shows "main fuel e =
       (create_window e @ load_gl e @ build_shaders e @ setup_geometry @
        loop_calls e n @ glfwWindowShouldClose True # cleanup, Some 0) \<and>
     length (filter (\<lambda>c. c = glfwSwapBuffers) (fst (main fuel e))) = n \<and>
     lifetimes [] (fst (main fuel e)) = Some []"
  using main_left [OF assms] swaps_main [OF assms] lifetimes_main [OF assms]
  by (intro conjI)

theorem close_request_example:
  "window_created example_run \<and> glad_loaded example_run \<and>
   \<not> should_close example_run 0 \<and> \<not> should_close example_run 1 \<and>
   should_close example_run 2 \<and> (2::nat) < 3 \<and>
   snd (main 3 example_run) = Some 0 \<and>
   length (filter (\<lambda>c. c = glfwSwapBuffers) (fst (main 3 example_run))) = 2 \<and>
   lifetimes [] (fst (main 3 example_run)) = Some []"
proof -
  have h: "window_created example_run" "glad_loaded example_run"
    "\<forall>k<2. \<not> should_close example_run k" "should_close example_run 2" "(2::nat) < 3"
    by (simp_all add: example_run_def)
  note r = close_request_leaves_loop [OF h]
  from r have "snd (main 3 example_run) = Some 0"
    by simp
  moreover from r have "length (filter (\<lambda>c. c = glfwSwapBuffers) (fst (main 3 example_run))) = 2"
    by (elim conjE)
  moreover from r have "lifetimes [] (fst (main 3 example_run)) = Some []"
    by (elim conjE)
  moreover have "\<not> should_close example_run 0 \<and> \<not> should_close example_run 1"
    using h(3) by simp
  ultimately show ?thesis
    using h(1,2,4,5) by simp
qed

text \<open>
  \<^bold>\<open>Claim C8.\<close> On the path that ends with the window closing, every object the program
  creates (three shader stages, two programs, the vertex array, two buffers) is created by
  exactly one call and deleted by exactly one call, never deleted while it does not exist,
  and none exists when \<open>main\<close> returns. The three shader stages are deleted directly
  after the link check of the second program; the vertex array, the buffers and the
  programs are deleted directly after the loop test that ends the loop.
\<close>

theorem objects_released_once:
  assumes "window_created e" "glad_loaded e"
    and "\<forall>k<n. \<not> should_close e k" "should_close e n" "n < fuel"
  shows "map (created_count (fst (main fuel e))) all_objects = [1, 1, 1, 1, 1, 1, 1, 1] \<and>
     map (freed_count (fst (main fuel e))) all_objects = [1, 1, 1, 1, 1, 1, 1, 1] \<and>
     lifetimes [] (fst (main fuel e)) = Some [] \<and>
     (\<exists>pre. glLinkProgram normalShader \<in> set pre \<and>
        fst (main fuel e) =
          pre @ glLinkProgram waveShader # checkLink e waveShader @
          [glDeleteShader vertexShader, glDeleteShader normalFrag, glDeleteShader waveFrag] @
          setup_geometry @ loop_calls e n @
          [glfwWindowShouldClose True,
           glDeleteVertexArrays VAO, glDeleteBuffers VBO, glDeleteBuffers EBO,
           glDeleteProgram normalShader, glDeleteProgram waveShader,
           glfwTerminate])"
proof -
  let ?pre = "create_window e @ load_gl e @
     [glCreateShader GL_VERTEX_SHADER vertexShader,
      glShaderSource vertexShader vertexShaderSource,
      glCompileShader vertexShader] @ checkCompile e vertexShader @
     [glCreateShader GL_FRAGMENT_SHADER normalFrag,
      glShaderSource normalFrag normalFragSource,
      glCompileShader normalFrag] @ checkCompile e normalFrag @
     [glCreateShader GL_FRAGMENT_SHADER waveFrag,
      glShaderSource waveFrag waveFragSource,
      glCompileShader waveFrag] @ checkCompile e waveFrag @
     [glCreateProgram normalShader,
      glAttachShader normalShader vertexShader,
      glAttachShader normalShader normalFrag,
      glLinkProgram normalShader] @ checkLink e normalShader @
     [glCreateProgram waveShader,
      glAttachShader waveShader vertexShader,
      glAttachShader waveShader waveFrag]"
  have "glLinkProgram normalShader \<in> set ?pre"
    by simp
  moreover have "fst (main fuel e) =
          ?pre @ glLinkProgram waveShader # checkLink e waveShader @
          [glDeleteShader vertexShader, glDeleteShader normalFrag, glDeleteShader waveFrag] @
          setup_geometry @ loop_calls e n @
          [glfwWindowShouldClose True,
           glDeleteVertexArrays VAO, glDeleteBuffers VBO, glDeleteBuffers EBO,
           glDeleteProgram normalShader, glDeleteProgram waveShader,
           glfwTerminate]"
    using main_left [OF assms] by (simp add: build_shaders_def cleanup_def)
  ultimately have "\<exists>pre. glLinkProgram normalShader \<in> set pre \<and>
        fst (main fuel e) =
          pre @ glLinkProgram waveShader # checkLink e waveShader @
          [glDeleteShader vertexShader, glDeleteShader normalFrag, glDeleteShader waveFrag] @
          setup_geometry @ loop_calls e n @
          [glfwWindowShouldClose True,
           glDeleteVertexArrays VAO, glDeleteBuffers VBO, glDeleteBuffers EBO,
           glDeleteProgram normalShader, glDeleteProgram waveShader,
           glfwTerminate]"
    by (intro exI [of _ ?pre] conjI)
  with counts_main [OF assms] lifetimes_main [OF assms] show ?thesis
    by (intro conjI)
qed

theorem objects_released_example:
  "window_created example_run \<and> glad_loaded example_run \<and>
   \<not> should_close example_run 0 \<and> \<not> should_close example_run 1 \<and>
   should_close example_run 2 \<and> (2::nat) < 3 \<and>
   map (created_count (fst (main 3 example_run))) all_objects = [1, 1, 1, 1, 1, 1, 1, 1] \<and>
   map (freed_count (fst (main 3 example_run))) all_objects = [1, 1, 1, 1, 1, 1, 1, 1] \<and>
   lifetimes [] (fst (main 3 example_run)) = Some []"
proof -
  have h: "window_created example_run" "glad_loaded example_run"
    "\<forall>k<2. \<not> should_close example_run k" "should_close example_run 2" "(2::nat) < 3"
    by (simp_all add: example_run_def)
  note r = objects_released_once [OF h]
  from r have "map (created_count (fst (main 3 example_run))) all_objects =
      [1, 1, 1, 1, 1, 1, 1, 1]"
    by (elim conjE)
  moreover from r have "map (freed_count (fst (main 3 example_run))) all_objects =
      [1, 1, 1, 1, 1, 1, 1, 1]"
    by (elim conjE)
  moreover from r have "lifetimes [] (fst (main 3 example_run)) = Some []"
    by (elim conjE)
  moreover have "\<not> should_close example_run 0 \<and> \<not> should_close example_run 1"
    using h(3) by simp
  ultimately show ?thesis
    using h(1,2,4,5) by simp
qed

subsection \<open>The geometry and its layout\<close>

lemma attribute_layout_main:
  assumes "window_created e" "glad_loaded e"
  shows "attribute_layout (fst (main fuel e)) =
     [(0, 3, GL_FLOAT, False, 5 * sizeof_float, 0),
      (1, 2, GL_FLOAT, False, 5 * sizeof_float, 3 * sizeof_float)]"
proof -
  have "attribute_layout (create_window e) = []" "attribute_layout (load_gl e) = []"
    "attribute_layout (build_shaders e) = []" "attribute_layout cleanup = []"
    by (simp_all add: create_window_def load_gl_def build_shaders_def cleanup_def
        attribute_layout_append attribute_layout_Cons quiet_checks attrib_pointer_def)
  moreover have "attribute_layout setup_geometry =
     [(0, 3, GL_FLOAT, False, 5 * sizeof_float, 0),
      (1, 2, GL_FLOAT, False, 5 * sizeof_float, 3 * sizeof_float)]"
    by (simp add: setup_geometry_def attribute_layout_Cons attrib_pointer_def)
  ultimately show ?thesis
    using assms by (simp add: main_unfold attribute_layout_append attribute_layout_loop)
qed

lemma uploads_main:
  assumes "window_created e" "glad_loaded e"
  shows "uploads (fst (main fuel e)) =
     [glBufferData GL_ARRAY_BUFFER sizeof_vertices (Floats vertices) GL_STATIC_DRAW,
      glBufferData GL_ELEMENT_ARRAY_BUFFER sizeof_indices (UInts indices) GL_STATIC_DRAW]"
proof -
  have "uploads (create_window e) = []" "uploads (load_gl e) = []"
    "uploads (build_shaders e) = []" "uploads cleanup = []"
    by (simp_all add: create_window_def load_gl_def build_shaders_def cleanup_def
        uploads_append uploads_Cons quiet_checks is_upload_def)
  moreover have "uploads setup_geometry =
     [glBufferData GL_ARRAY_BUFFER sizeof_vertices (Floats vertices) GL_STATIC_DRAW,
      glBufferData GL_ELEMENT_ARRAY_BUFFER sizeof_indices (UInts indices) GL_STATIC_DRAW]"
    by (simp add: setup_geometry_def uploads_Cons is_upload_def)
  ultimately show ?thesis
    using assms by (simp add: main_unfold uploads_append uploads_loop)
qed

lemma vertex_arrays_main:
  assumes "window_created e" "glad_loaded e"
  shows "filter (\<lambda>c. c = glGenVertexArrays VAO) (fst (main fuel e)) = [glGenVertexArrays VAO]"
proof -
  have "filter (\<lambda>c. c = glGenVertexArrays VAO) (create_window e) = []"
    "filter (\<lambda>c. c = glGenVertexArrays VAO) (load_gl e) = []"
    "filter (\<lambda>c. c = glGenVertexArrays VAO) (build_shaders e) = []"
    "filter (\<lambda>c. c = glGenVertexArrays VAO) cleanup = []"
    by (simp_all add: create_window_def load_gl_def build_shaders_def cleanup_def
        checkCompile_def checkLink_def)
  moreover have "filter (\<lambda>c. c = glGenVertexArrays VAO) (fst (render_loop fuel e 0)) = []"
    using loop_quiet [of _ fuel e 0] by (auto simp: filter_empty_conv)
  moreover have "filter (\<lambda>c. c = glGenVertexArrays VAO) setup_geometry = [glGenVertexArrays VAO]"
    by (simp add: setup_geometry_def)
  ultimately show ?thesis
    using assms by (simp add: main_unfold)
qed

text \<open>
  \<^bold>\<open>Claim C7.\<close> The vertex array of the source has 8 * 5 floats and the index array 12
  entries. Read with the two attribute descriptions the program gives (attribute 0: 3
  floats at byte offset 0; attribute 1: 2 floats at byte offset \<open>3 * sizeof(float)\<close>;
  both with stride \<open>5 * sizeof(float)\<close>), the 8 vertices get the positions and
  texture coordinates written in the source, and position followed by texture coordinate,
  vertex after vertex, is the whole array. A run that gets its window and loader
  makes exactly these two attribute descriptions, creates one vertex array, and uploads
  the two arrays with their full sizes.
\<close>

theorem geometry_layout:
  "length vertices = 8 * 5 \<and>
   length indices = 12 \<and>
   map (attribute 3 (5 * sizeof_float) 0) [0..<8] =
     [[-0.9, 0.5, 0.0], [-0.9, 0.0, 0.0], [-0.5, 0.0, 0.0], [-0.5, 0.5, 0.0],
      [0.5, 0.5, 0.0], [0.5, 0.0, 0.0], [0.9, 0.0, 0.0], [0.9, 0.5, 0.0]] \<and>
   map (attribute 2 (5 * sizeof_float) (3 * sizeof_float)) [0..<8] =
     [[0.0, 1.0], [0.0, 0.0], [1.0, 0.0], [1.0, 1.0],
      [0.0, 1.0], [0.0, 0.0], [1.0, 0.0], [1.0, 1.0]] \<and>
   concat (map (\<lambda>i. attribute 3 (5 * sizeof_float) 0 i @
                     attribute 2 (5 * sizeof_float) (3 * sizeof_float) i) [0..<8]) = vertices \<and>
   sizeof_vertices = 8 * 5 * sizeof_float \<and>
   sizeof_indices = 12 * sizeof_unsigned_int \<and>
   (window_created e \<and> glad_loaded e \<longrightarrow>
      attribute_layout (fst (main fuel e)) =
        [(0, 3, GL_FLOAT, False, 5 * sizeof_float, 0),
         (1, 2, GL_FLOAT, False, 5 * sizeof_float, 3 * sizeof_float)] \<and>
      filter (\<lambda>c. c = glGenVertexArrays VAO) (fst (main fuel e)) = [glGenVertexArrays VAO] \<and>
      uploads (fst (main fuel e)) =
        [glBufferData GL_ARRAY_BUFFER sizeof_vertices (Floats vertices) GL_STATIC_DRAW,
         glBufferData GL_ELEMENT_ARRAY_BUFFER sizeof_indices (UInts indices) GL_STATIC_DRAW])"
proof -
  have upt8: "[0..<8] = [0, 1, 2, 3, 4, 5, 6, 7::nat]"
    by (simp add: upt_conv_Cons)
  have data: "length vertices = 8 * 5" "length indices = 12"
    "sizeof_vertices = 8 * 5 * sizeof_float" "sizeof_indices = 12 * sizeof_unsigned_int"
    by (simp_all add: vertices_def indices_def sizeof_vertices_def sizeof_indices_def)
  have pos: "map (attribute 3 (5 * sizeof_float) 0) [0..<8] =
     [[-0.9, 0.5, 0.0], [-0.9, 0.0, 0.0], [-0.5, 0.0, 0.0], [-0.5, 0.5, 0.0],
      [0.5, 0.5, 0.0], [0.5, 0.0, 0.0], [0.9, 0.0, 0.0], [0.9, 0.5, 0.0]]"
    unfolding upt8 by (simp add: attribute_def sizeof_float_def vertices_def)
  have tex: "map (attribute 2 (5 * sizeof_float) (3 * sizeof_float)) [0..<8] =
     [[0.0, 1.0], [0.0, 0.0], [1.0, 0.0], [1.0, 1.0],
      [0.0, 1.0], [0.0, 0.0], [1.0, 0.0], [1.0, 1.0]]"
    unfolding upt8 by (simp add: attribute_def sizeof_float_def vertices_def)
  have whole: "concat (map (\<lambda>i. attribute 3 (5 * sizeof_float) 0 i @
                     attribute 2 (5 * sizeof_float) (3 * sizeof_float) i) [0..<8]) = vertices"
    unfolding upt8 by (simp add: attribute_def sizeof_float_def vertices_def)
  have run: "window_created e \<and> glad_loaded e \<longrightarrow>
      attribute_layout (fst (main fuel e)) =
        [(0, 3, GL_FLOAT, False, 5 * sizeof_float, 0),
         (1, 2, GL_FLOAT, False, 5 * sizeof_float, 3 * sizeof_float)] \<and>
      filter (\<lambda>c. c = glGenVertexArrays VAO) (fst (main fuel e)) = [glGenVertexArrays VAO] \<and>
      uploads (fst (main fuel e)) =
        [glBufferData GL_ARRAY_BUFFER sizeof_vertices (Floats vertices) GL_STATIC_DRAW,
         glBufferData GL_ELEMENT_ARRAY_BUFFER sizeof_indices (UInts indices) GL_STATIC_DRAW]"
    using attribute_layout_main [of e fuel] vertex_arrays_main [of e fuel] uploads_main [of e fuel]
    by blast
  from data(1,2) pos tex whole data(3,4) run show ?thesis
    by (intro conjI)
qed

theorem geometry_layout_example:
  "window_created example_run \<and> glad_loaded example_run \<and>
   attribute_layout (fst (main 3 example_run)) =
     [(0, 3, GL_FLOAT, False, 20, 0), (1, 2, GL_FLOAT, False, 20, 12)] \<and>
   uploads (fst (main 3 example_run)) =
     [glBufferData GL_ARRAY_BUFFER 160 (Floats vertices) GL_STATIC_DRAW,
      glBufferData GL_ELEMENT_ARRAY_BUFFER 48 (UInts indices) GL_STATIC_DRAW]"
proof -
  have ok: "window_created example_run \<and> glad_loaded example_run"
    by (simp add: example_run_def)
  note r = geometry_layout [of example_run 3]
  from r have size_v: "sizeof_vertices = 8 * 5 * sizeof_float"
    by (elim conjE)
  from r have size_i: "sizeof_indices = 12 * sizeof_unsigned_int"
    by (elim conjE)
  from r have "window_created example_run \<and> glad_loaded example_run \<longrightarrow>
      attribute_layout (fst (main 3 example_run)) =
        [(0, 3, GL_FLOAT, False, 5 * sizeof_float, 0),
         (1, 2, GL_FLOAT, False, 5 * sizeof_float, 3 * sizeof_float)] \<and>
      filter (\<lambda>c. c = glGenVertexArrays VAO) (fst (main 3 example_run)) =
        [glGenVertexArrays VAO] \<and>
      uploads (fst (main 3 example_run)) =
        [glBufferData GL_ARRAY_BUFFER sizeof_vertices (Floats vertices) GL_STATIC_DRAW,
         glBufferData GL_ELEMENT_ARRAY_BUFFER sizeof_indices (UInts indices) GL_STATIC_DRAW]"
    by (elim conjE)
  with ok show ?thesis
    by (simp add: size_v size_i sizeof_float_def sizeof_unsigned_int_def)
qed

subsection \<open>The buffer contents during a run\<close>

lemma gl_run_append: "gl_run (xs @ ys) = fold gl_step ys (gl_run xs)"
  by (simp add: gl_run_def)

lemma store_preserved:
  "(\<And>c s. c \<in> set cs \<Longrightarrow> store (gl_step c s) = store s) \<Longrightarrow>
   store (fold gl_step cs s) = store s"
  by (induction cs arbitrary: s) simp_all

lemma fold_gl_step_check:
  "fold gl_step (checkCompile e s @ cs) st = fold gl_step cs st"
  "fold gl_step (checkLink e p @ cs) st = fold gl_step cs st"
  by (simp_all add: checkCompile_def checkLink_def gl_step_def)

lemma store_after_upload:
  "store (gl_run (create_window e @ load_gl e @ build_shaders e @
      [glGenVertexArrays VAO,
       glGenBuffers VBO,
       glGenBuffers EBO,
       glBindVertexArray (Some VAO),
       glBindBuffer GL_ARRAY_BUFFER VBO,
       glBufferData GL_ARRAY_BUFFER sizeof_vertices (Floats vertices) GL_STATIC_DRAW,
       glBindBuffer GL_ELEMENT_ARRAY_BUFFER EBO,
       glBufferData GL_ELEMENT_ARRAY_BUFFER sizeof_indices (UInts indices) GL_STATIC_DRAW])) =
   (\<lambda>b. Some (case b of VBO \<Rightarrow> Floats vertices | EBO \<Rightarrow> UInts indices))"
  by (simp add: gl_run_def create_window_def load_gl_def build_shaders_def fold_gl_step_check
      gl_step_def gl_init_def fun_eq_iff split: buffer.splits)

lemma prefix_of_cleanup:
  assumes "vs @ post = cleanup" "glDeleteBuffers VBO \<notin> set vs"
  shows "vs = [] \<or> vs = [glDeleteVertexArrays VAO]"
proof (cases vs)
  case Nil
  then show ?thesis by simp
next
  case (Cons v vs')
  with assms(1) have v: "v = glDeleteVertexArrays VAO"
    and rest: "vs' @ post = [glDeleteBuffers VBO, glDeleteBuffers EBO,
      glDeleteProgram normalShader, glDeleteProgram waveShader, glfwTerminate]"
    by (simp_all add: cleanup_def)
  have "vs' = []"
  proof (cases vs')
    case Nil
    then show ?thesis .
  next
    case (Cons w ws)
    with rest have "w = glDeleteBuffers VBO" by simp
    with assms(2) \<open>vs = v # vs'\<close> Cons show ?thesis by simp
  qed
  with v Cons show ?thesis by simp
qed

text \<open>
  \<^bold>\<open>Claim C6.\<close> The program makes two uploads, one of the vertex array and one of the
  index array, both during set-up. At every point of a run after the second upload and
  before the cleanup deletes the buffers, the store of \<open>VBO\<close> is the vertex array of the
  source and the store of \<open>EBO\<close> is its index array, and the uploads made so far are
  those two: what is read back at any two such points is the same.
\<close>

theorem geometry_immutable:
  assumes run: "fst (main fuel e) = pre @ post"
    and uploaded: "glBufferData GL_ELEMENT_ARRAY_BUFFER sizeof_indices (UInts indices)
        GL_STATIC_DRAW \<in> set pre"
    and kept: "glDeleteBuffers VBO \<notin> set pre"
  shows "store (gl_run pre) VBO = Some (Floats vertices) \<and>
     store (gl_run pre) EBO = Some (UInts indices) \<and>
     uploads pre =
       [glBufferData GL_ARRAY_BUFFER sizeof_vertices (Floats vertices) GL_STATIC_DRAW,
        glBufferData GL_ELEMENT_ARRAY_BUFFER sizeof_indices (UInts indices) GL_STATIC_DRAW]"
proof -
  let ?u = "glBufferData GL_ELEMENT_ARRAY_BUFFER sizeof_indices (UInts indices) GL_STATIC_DRAW"
  let ?head = "create_window e @ load_gl e @ build_shaders e @
      [glGenVertexArrays VAO,
       glGenBuffers VBO,
       glGenBuffers EBO,
       glBindVertexArray (Some VAO),
       glBindBuffer GL_ARRAY_BUFFER VBO,
       glBufferData GL_ARRAY_BUFFER sizeof_vertices (Floats vertices) GL_STATIC_DRAW,
       glBindBuffer GL_ELEMENT_ARRAY_BUFFER EBO]"
  let ?quiet = "[glVertexAttribPointer 0 3 GL_FLOAT False (5 * sizeof_float) 0,
       glEnableVertexAttribArray 0,
       glVertexAttribPointer 1 2 GL_FLOAT False (5 * sizeof_float) (3 * sizeof_float),
       glEnableVertexAttribArray 1,
       glBindVertexArray None] @ fst (render_loop fuel e 0)"
  let ?last = "if snd (render_loop fuel e 0) then cleanup else []"
  have no_upload_early: "?u \<notin> set (create_window e)" "?u \<notin> set (load_gl e)"
    "?u \<notin> set (build_shaders e)"
    by (simp_all add: create_window_def load_gl_def build_shaders_def checkCompile_def
        checkLink_def)
  have ok: "window_created e \<and> glad_loaded e"
  proof (rule ccontr)
    assume "\<not> (window_created e \<and> glad_loaded e)"
    then have "?u \<notin> set (fst (main fuel e))"
      using no_upload_early by (auto simp: main_unfold)
    with run uploaded show False by simp
  qed
  then have tr: "pre @ post = ?head @ ?u # ?quiet @ ?last"
    using run by (simp add: main_unfold setup_geometry_def)
  have not_in_head: "?u \<notin> set ?head"
    using no_upload_early by simp
  from tr obtain us where
    "(pre = ?head @ us \<and> us @ post = ?u # ?quiet @ ?last) \<or>
     (pre @ us = ?head \<and> post = us @ ?u # ?quiet @ ?last)"
    unfolding append_eq_append_conv2 by blast
  then have "pre = ?head @ us \<and> us @ post = ?u # ?quiet @ ?last"
  proof
    assume "pre @ us = ?head \<and> post = us @ ?u # ?quiet @ ?last"
    then have "set pre \<subseteq> set ?head"
      by (metis set_append Un_upper1)
    with uploaded not_in_head show ?thesis by blast
  qed
  then have pre_us: "pre = ?head @ us" and us_post: "us @ post = ?u # ?quiet @ ?last"
    by blast+
  have "us \<noteq> []"
    using pre_us uploaded not_in_head by auto
  with us_post obtain mid where us: "us = ?u # mid" and mid_post: "mid @ post = ?quiet @ ?last"
    by (cases us) auto
  have pre_eq: "pre = (?head @ [?u]) @ mid"
    using pre_us us by simp
  have mid_kept: "glDeleteBuffers VBO \<notin> set mid"
    using kept pre_eq by simp
  from mid_post obtain vs where
    "(mid = ?quiet @ vs \<and> vs @ post = ?last) \<or> (mid @ vs = ?quiet \<and> post = vs @ ?last)"
    unfolding append_eq_append_conv2 by blast
  then have mid_calls: "set mid \<subseteq> set ?quiet \<union> {glDeleteVertexArrays VAO}"
  proof
    assume a: "mid = ?quiet @ vs \<and> vs @ post = ?last"
    have "vs = [] \<or> vs = [glDeleteVertexArrays VAO]"
    proof (cases "snd (render_loop fuel e 0)")
      case True
      with a have "vs @ post = cleanup" by simp
      moreover from a mid_kept have "glDeleteBuffers VBO \<notin> set vs" by simp
      ultimately show ?thesis by (rule prefix_of_cleanup)
    next
      case False
      with a show ?thesis by simp
    qed
    with a show ?thesis by auto
  next
    assume "mid @ vs = ?quiet \<and> post = vs @ ?last"
    then have "set mid \<subseteq> set ?quiet"
      by (metis set_append Un_upper1)
    then show ?thesis by blast
  qed
  have quiet_call: "store (gl_step c s) = store s \<and> \<not> is_upload c" if "c \<in> set mid" for c s
  proof -
    from that mid_calls have "c \<in> set (fst (render_loop fuel e 0)) \<or>
        c \<in> {glVertexAttribPointer 0 3 GL_FLOAT False (5 * sizeof_float) 0,
          glEnableVertexAttribArray 0,
          glVertexAttribPointer 1 2 GL_FLOAT False (5 * sizeof_float) (3 * sizeof_float),
          glEnableVertexAttribArray 1, glBindVertexArray None, glDeleteVertexArrays VAO}"
      by auto
    then show ?thesis
    proof
      assume "c \<in> set (fst (render_loop fuel e 0))"
      then show ?thesis using loop_quiet [of c fuel e 0 0 s] by simp
    next
      assume "c \<in> {glVertexAttribPointer 0 3 GL_FLOAT False (5 * sizeof_float) 0,
          glEnableVertexAttribArray 0,
          glVertexAttribPointer 1 2 GL_FLOAT False (5 * sizeof_float) (3 * sizeof_float),
          glEnableVertexAttribArray 1, glBindVertexArray None, glDeleteVertexArrays VAO}"
      then show ?thesis by (auto simp: gl_step_def is_upload_def)
    qed
  qed
  have "store (gl_run pre) = store (gl_run (?head @ [?u]))"
    unfolding pre_eq gl_run_append using quiet_call by (intro store_preserved) simp
  also have "\<dots> = (\<lambda>b. Some (case b of VBO \<Rightarrow> Floats vertices | EBO \<Rightarrow> UInts indices))"
    using store_after_upload [of e] by simp
  finally have stores: "store (gl_run pre) VBO = Some (Floats vertices)"
    "store (gl_run pre) EBO = Some (UInts indices)"
    by simp_all
  have "uploads mid = []"
    using quiet_call by (auto simp: uploads_def filter_empty_conv)
  moreover have "uploads (create_window e) = []" "uploads (load_gl e) = []"
    "uploads (build_shaders e) = []"
    by (simp_all add: create_window_def load_gl_def build_shaders_def uploads_append
        uploads_Cons quiet_checks is_upload_def)
  ultimately have "uploads pre =
       [glBufferData GL_ARRAY_BUFFER sizeof_vertices (Floats vertices) GL_STATIC_DRAW,
        glBufferData GL_ELEMENT_ARRAY_BUFFER sizeof_indices (UInts indices) GL_STATIC_DRAW]"
    unfolding pre_eq by (simp add: uploads_append uploads_Cons is_upload_def)
  with stores show ?thesis
    by (intro conjI)
qed

theorem geometry_immutable_example:
  "fst (main 3 example_run) =
     (create_window example_run @ load_gl example_run @ build_shaders example_run @
      setup_geometry @ loop_calls example_run 1) @
     (glfwWindowShouldClose False # frame example_run 1 @
      glfwWindowShouldClose True # cleanup) \<and>
   glBufferData GL_ELEMENT_ARRAY_BUFFER sizeof_indices (UInts indices) GL_STATIC_DRAW \<in>
     set (create_window example_run @ load_gl example_run @ build_shaders example_run @
      setup_geometry @ loop_calls example_run 1) \<and>
   glDeleteBuffers VBO \<notin>
     set (create_window example_run @ load_gl example_run @ build_shaders example_run @
      setup_geometry @ loop_calls example_run 1) \<and>
   store (gl_run (create_window example_run @ load_gl example_run @ build_shaders example_run @
      setup_geometry @ loop_calls example_run 1)) VBO = Some (Floats vertices) \<and>
   store (gl_run (create_window example_run @ load_gl example_run @ build_shaders example_run @
      setup_geometry @ loop_calls example_run 1)) EBO = Some (UInts indices)"
proof -
  let ?pre = "create_window example_run @ load_gl example_run @ build_shaders example_run @
      setup_geometry @ loop_calls example_run 1"
  let ?post = "glfwWindowShouldClose False # frame example_run 1 @
      glfwWindowShouldClose True # cleanup"
  have closes: "window_created example_run" "glad_loaded example_run"
    "\<forall>k<2. \<not> should_close example_run k" "should_close example_run 2" "(2::nat) < 3"
    by (simp_all add: example_run_def)
  have "loop_calls example_run 2 =
      loop_calls example_run 1 @ glfwWindowShouldClose False # frame example_run 1"
    using loop_calls_Suc [of example_run 1] by (simp add: numeral_2_eq_2)
  then have run: "fst (main 3 example_run) = ?pre @ ?post"
    using main_left [OF closes] by simp
  have uploaded: "glBufferData GL_ELEMENT_ARRAY_BUFFER sizeof_indices (UInts indices)
      GL_STATIC_DRAW \<in> set ?pre"
    by (simp add: setup_geometry_def)
  have "glDeleteBuffers VBO \<notin> set (loop_calls example_run 1)"
    using loop_calls_calls [of "glDeleteBuffers VBO" example_run 1] by (auto simp: frame_def)
  then have kept: "glDeleteBuffers VBO \<notin> set ?pre"
    by (simp add: create_window_def load_gl_def build_shaders_def checkCompile_def
        checkLink_def setup_geometry_def)
  note r = geometry_immutable [OF run uploaded kept]
  from r have vbo: "store (gl_run ?pre) VBO = Some (Floats vertices)"
    by (elim conjE)
  from r have ebo: "store (gl_run ?pre) EBO = Some (UInts indices)"
    by (elim conjE)
  from run uploaded kept vbo ebo show ?thesis
    by (intro conjI)
qed

subsection \<open>What the first quad shows\<close>

lemma draws_append:
  "draws w tc s (xs @ ys) = draws w tc s xs @ draws w tc (fold render_step xs s) ys"
  by (induction xs arbitrary: s) simp_all

lemma drawn_flat:
  "fragment_of s normalShader = Some normalFragSource \<Longrightarrow>
   list_all (\<lambda>d. colour d = Some (0.8, 0.4, 0.2, 1.0))
     (filter (\<lambda>d. with_program d = Some normalShader) (drawn w tc s c))"
  by (cases c) (simp_all add: drawn_def fragment_stage_def normalFrag_main_def)

lemma draws_flat:
  assumes "\<And>c s. c \<in> set cs \<Longrightarrow> fragment_of (render_step c s) normalShader = fragment_of s normalShader"
    and "fragment_of s normalShader = Some normalFragSource"
  shows "list_all (\<lambda>d. colour d = Some (0.8, 0.4, 0.2, 1.0))
     (filter (\<lambda>d. with_program d = Some normalShader) (draws w tc s cs))"
  using assms
proof (induction cs arbitrary: s)
  case Nil
  then show ?case by simp
next
  case (Cons c cs)
  have "fragment_of (render_step c s) normalShader = Some normalFragSource"
    using Cons.prems by simp
  then have "list_all (\<lambda>d. colour d = Some (0.8, 0.4, 0.2, 1.0))
     (filter (\<lambda>d. with_program d = Some normalShader) (draws w tc (render_step c s) cs))"
    using Cons.prems(1) by (intro Cons.IH) simp_all
  with drawn_flat [OF Cons.prems(2), of w tc c] show ?case
    by simp
qed

lemma no_draws:
  "(\<And>c s. c \<in> set cs \<Longrightarrow> drawn w tc s c = []) \<Longrightarrow> draws w tc s cs = []"
  by (induction cs arbitrary: s) simp_all

lemma frame_keeps_programs:
  assumes "c \<in> set (fst (render_loop fuel e k)) \<or> c \<in> set cleanup"
  shows "fragment_of (render_step c s) = fragment_of s"
proof -
  from assms have "(\<exists>b. c = glfwWindowShouldClose b) \<or> (\<exists>j. c \<in> set (frame e j)) \<or>
      c \<in> set cleanup"
    using render_loop_calls [of c fuel e k] by blast
  then show ?thesis
    by (auto simp: frame_def cleanup_def render_step_def split: option.splits)
qed

lemma fold_render_step_check:
  "fold render_step (checkCompile e sh) s = s"
  "fold render_step (checkLink e p) s = s\<lparr>linked := (linked s)(p := link_status e p)\<rparr>"
  by (simp_all add: checkCompile_def checkLink_def render_step_def)

lemma draws_check:
  "draws w tc s (checkCompile e sh @ cs) = draws w tc s (cs)"
  "draws w tc s (checkLink e p @ cs) =
     draws w tc (s\<lparr>linked := (linked s)(p := link_status e p)\<rparr>) cs"
  by (simp_all add: checkCompile_def checkLink_def render_step_def drawn_def)

lemma setup_draws:
  "draws w tc render_init (create_window e @ load_gl e @ build_shaders e @ setup_geometry) = []"
  by (simp add: create_window_def load_gl_def build_shaders_def setup_geometry_def draws_check
      drawn_def)

lemma setup_state:
  "fragment_of (fold render_step (create_window e @ load_gl e @ build_shaders e @ setup_geometry)
      render_init) normalShader = Some normalFragSource"
  "linked (fold render_step (create_window e @ load_gl e @ build_shaders e @ setup_geometry)
      render_init) normalShader = link_status e normalShader"
  by (simp_all add: create_window_def load_gl_def build_shaders_def setup_geometry_def
      fold_render_step_check render_step_def render_init_def)

lemma flat_draws_main:
  "list_all (\<lambda>d. colour d = Some (0.8, 0.4, 0.2, 1.0))
     (filter (\<lambda>d. with_program d = Some normalShader)
        (draws w tc render_init (fst (main fuel e))))"
proof (cases "window_created e \<and> glad_loaded e")
  case False
  have "draws w tc render_init (create_window e @ cs) = draws w tc render_init cs" for cs
    by (simp add: create_window_def drawn_def render_step_def)
  with False show ?thesis
    by (auto simp: main_unfold load_gl_def drawn_def)
next
  case True
  let ?start = "create_window e @ load_gl e @ build_shaders e @ setup_geometry"
  let ?rest = "fst (render_loop fuel e 0) @ (if snd (render_loop fuel e 0) then cleanup else [])"
  have tr: "fst (main fuel e) = ?start @ ?rest"
    using True by (simp add: main_unfold)
  have keep: "fragment_of (render_step c s) normalShader = fragment_of s normalShader"
    if "c \<in> set ?rest" for c s
    using that frame_keeps_programs [of c fuel e 0 s] by (auto split: if_splits)
  have "list_all (\<lambda>d. colour d = Some (0.8, 0.4, 0.2, 1.0))
     (filter (\<lambda>d. with_program d = Some normalShader)
        (draws w tc (fold render_step ?start render_init) ?rest))"
    using keep setup_state(1) [of e] by (rule draws_flat)
  moreover have "draws w tc render_init (?start @ ?rest) =
      draws w tc (fold render_step ?start render_init) ?rest"
    using draws_append [of w tc render_init ?start ?rest] setup_draws [of w tc e] by simp
  ultimately show ?thesis
    unfolding tr by simp
qed

lemma frame_first_quad:
  assumes "fragment_of s normalShader = Some normalFragSource" "linked s normalShader"
  shows "filter (\<lambda>d. byte_offset d = 0) (draws w tc s (glfwWindowShouldClose b # frame e k)) =
      [Draw 6 0 (Some normalShader) (Some (0.8, 0.4, 0.2, 1.0))]"
    and "fragment_of (fold render_step (glfwWindowShouldClose b # frame e k) s) normalShader =
      Some normalFragSource"
    and "linked (fold render_step (glfwWindowShouldClose b # frame e k) s) normalShader"
  using assms
  by (simp_all add: frame_def drawn_def render_step_def fragment_stage_def normalFrag_main_def
      sizeof_unsigned_int_def split: option.splits)

lemma loop_first_quad:
  assumes "fragment_of s normalShader = Some normalFragSource" "linked s normalShader"
  shows "filter (\<lambda>d. byte_offset d = 0) (draws w tc s (fst (render_loop fuel e k) @ cs)) =
      replicate (length (filter (\<lambda>c. c = glfwSwapBuffers) (fst (render_loop fuel e k))))
        (Draw 6 0 (Some normalShader) (Some (0.8, 0.4, 0.2, 1.0))) @
      filter (\<lambda>d. byte_offset d = 0)
        (draws w tc (fold render_step (fst (render_loop fuel e k)) s) cs)"
  using assms
proof (induction fuel arbitrary: k s)
  case 0
  then show ?case by simp
next
  case (Suc fuel)
  show ?case
  proof (cases "should_close e k")
    case True
    then show ?thesis by (simp add: drawn_def render_step_def)
  next
    case False
    let ?f = "glfwWindowShouldClose False # frame e k"
    let ?s = "fold render_step ?f s"
    have loop: "fst (render_loop (Suc fuel) e k) = ?f @ fst (render_loop fuel e (Suc k))"
      using False by (simp add: case_prod_beta)
    have swaps: "length (filter (\<lambda>c. c = glfwSwapBuffers) ?f) = 1"
      by (simp add: frame_def)
    note fq1 = frame_first_quad(1) [OF Suc.prems, where w = w and tc = tc and b = False
        and e = e and k = k]
    note fq = frame_first_quad(2,3) [OF Suc.prems, where b = False and e = e and k = k]
    have "filter (\<lambda>d. byte_offset d = 0)
        (draws w tc s ((?f @ fst (render_loop fuel e (Suc k))) @ cs)) =
      filter (\<lambda>d. byte_offset d = 0) (draws w tc s ?f) @
      filter (\<lambda>d. byte_offset d = 0) (draws w tc ?s (fst (render_loop fuel e (Suc k)) @ cs))"
      by (simp only: append_assoc draws_append filter_append)
    also have "\<dots> = [Draw 6 0 (Some normalShader) (Some (0.8, 0.4, 0.2, 1.0))] @
      (replicate (length (filter (\<lambda>c. c = glfwSwapBuffers) (fst (render_loop fuel e (Suc k)))))
        (Draw 6 0 (Some normalShader) (Some (0.8, 0.4, 0.2, 1.0))) @
      filter (\<lambda>d. byte_offset d = 0)
        (draws w tc (fold render_step (fst (render_loop fuel e (Suc k))) ?s) cs))"
      using Suc.IH [OF fq, where k = "Suc k"] fq1 by simp
    finally show ?thesis
      unfolding loop using swaps by (simp only: filter_append length_append fold_append o_apply)
        (simp add: replicate_add)
  qed
qed

lemma first_quad_main:
  assumes "window_created e" "glad_loaded e" "link_status e normalShader"
  shows "filter (\<lambda>d. byte_offset d = 0) (draws w tc render_init (fst (main fuel e))) =
     replicate (length (filter (\<lambda>c. c = glfwSwapBuffers) (fst (main fuel e))))
       (Draw 6 0 (Some normalShader) (Some (0.8, 0.4, 0.2, 1.0)))"
proof -
  let ?start = "create_window e @ load_gl e @ build_shaders e @ setup_geometry"
  let ?last = "if snd (render_loop fuel e 0) then cleanup else []"
  define st where "st = fold render_step ?start render_init"
  define lp where "lp = fst (render_loop fuel e 0)"
  have tr: "fst (main fuel e) = ?start @ lp @ ?last"
    using assms by (simp add: main_unfold lp_def)
  have stage: "fragment_of st normalShader = Some normalFragSource"
    unfolding st_def by (rule setup_state(1))
  have link: "linked st normalShader"
    unfolding st_def using assms(3) by (simp only: setup_state(2))
  have "filter (\<lambda>c. c = glfwSwapBuffers) ?start = []"
    "filter (\<lambda>c. c = glfwSwapBuffers) ?last = []"
    by (simp_all add: create_window_def load_gl_def build_shaders_def setup_geometry_def
        cleanup_def checkCompile_def checkLink_def)
  then have swaps: "length (filter (\<lambda>c. c = glfwSwapBuffers) (fst (main fuel e))) =
      length (filter (\<lambda>c. c = glfwSwapBuffers) lp)"
    unfolding tr by simp
  have last: "draws w tc s ?last = []" for s
    by (rule no_draws) (auto simp: cleanup_def drawn_def)
  have "draws w tc render_init (fst (main fuel e)) = draws w tc st (lp @ ?last)"
    unfolding tr st_def
    by (simp only: draws_append [of w tc render_init ?start] setup_draws append_Nil)
  then have "filter (\<lambda>d. byte_offset d = 0) (draws w tc render_init (fst (main fuel e))) =
      filter (\<lambda>d. byte_offset d = 0) (draws w tc st (lp @ ?last))"
    by simp
  also have "\<dots> =
      replicate (length (filter (\<lambda>c. c = glfwSwapBuffers) lp))
        (Draw 6 0 (Some normalShader) (Some (0.8, 0.4, 0.2, 1.0))) @
      filter (\<lambda>d. byte_offset d = 0) (draws w tc (fold render_step lp st) ?last)"
    unfolding lp_def by (rule loop_first_quad [OF stage link])
  finally show ?thesis
    by (simp only: last swaps filter.simps append_Nil2)
qed

text \<open>
  \<^bold>\<open>Claim C9.\<close> The flat fragment stage gives the colour (0.8, 0.4, 0.2, 1.0) for every
  texture coordinate and whatever the uniform values are. In every run, every draw made
  while the flat program is current shows that colour, whatever the wave stage computes
  and whatever the clock says. When the window and the loader were obtained and the flat
  program linked, the draws of the first quad (byte offset 0) are one per frame, each of
  6 indices, each made with the flat program and showing that colour: the first quad
  looks the same in every frame of every such run. (When the flat program does not link,
  \<open>glUseProgram(normalShader)\<close> is an error and the first quad is drawn with whatever
  program is current; there is then no flat program for the claim to speak of.)
\<close>

theorem flat_quad_colour:
  "fragment_stage wave normalFragSource u TexCoord = Some (0.8, 0.4, 0.2, 1.0) \<and>
   list_all (\<lambda>d. colour d = Some (0.8, 0.4, 0.2, 1.0))
     (filter (\<lambda>d. with_program d = Some normalShader)
        (draws wave TexCoord render_init (fst (main fuel e)))) \<and>
   (window_created e \<and> glad_loaded e \<and> link_status e normalShader \<longrightarrow>
      filter (\<lambda>d. byte_offset d = 0) (draws wave TexCoord render_init (fst (main fuel e))) =
        replicate (length (filter (\<lambda>c. c = glfwSwapBuffers) (fst (main fuel e))))
          (Draw 6 0 (Some normalShader) (Some (0.8, 0.4, 0.2, 1.0))))"
proof -
  have stage: "fragment_stage wave normalFragSource u TexCoord = Some (0.8, 0.4, 0.2, 1.0)"
    by (simp add: fragment_stage_def normalFrag_main_def)
  have first: "window_created e \<and> glad_loaded e \<and> link_status e normalShader \<longrightarrow>
      filter (\<lambda>d. byte_offset d = 0) (draws wave TexCoord render_init (fst (main fuel e))) =
        replicate (length (filter (\<lambda>c. c = glfwSwapBuffers) (fst (main fuel e))))
          (Draw 6 0 (Some normalShader) (Some (0.8, 0.4, 0.2, 1.0)))"
    using first_quad_main [of e wave TexCoord fuel] by blast
  from stage flat_draws_main [of wave TexCoord fuel e] first show ?thesis
    by (intro conjI)
qed

theorem flat_quad_colour_example:
  "window_created example_run \<and> glad_loaded example_run \<and>
   link_status example_run normalShader \<and>
   (\<forall>wave TexCoord.
      filter (\<lambda>d. byte_offset d = 0)
        (draws wave TexCoord render_init (fst (main 3 example_run))) =
      [Draw 6 0 (Some normalShader) (Some (0.8, 0.4, 0.2, 1.0)),
       Draw 6 0 (Some normalShader) (Some (0.8, 0.4, 0.2, 1.0))])"
proof -
  have ok: "window_created example_run \<and> glad_loaded example_run \<and>
      link_status example_run normalShader"
    by (simp add: example_run_def)
  have closes: "window_created example_run" "glad_loaded example_run"
    "\<forall>k<2. \<not> should_close example_run k" "should_close example_run 2" "(2::nat) < 3"
    by (simp_all add: example_run_def)
  have frames: "length (filter (\<lambda>c. c = glfwSwapBuffers) (fst (main 3 example_run))) = 2"
    by (rule swaps_main [OF closes])
  have "filter (\<lambda>d. byte_offset d = 0)
        (draws wave TexCoord render_init (fst (main 3 example_run))) =
      [Draw 6 0 (Some normalShader) (Some (0.8, 0.4, 0.2, 1.0)),
       Draw 6 0 (Some normalShader) (Some (0.8, 0.4, 0.2, 1.0))]" for wave TexCoord
  proof -
    note r = flat_quad_colour [of wave "\<lambda>l. None" TexCoord 3 example_run]
    from r have "window_created example_run \<and> glad_loaded example_run \<and>
        link_status example_run normalShader \<longrightarrow>
      filter (\<lambda>d. byte_offset d = 0)
        (draws wave TexCoord render_init (fst (main 3 example_run))) =
      replicate (length (filter (\<lambda>c. c = glfwSwapBuffers) (fst (main 3 example_run))))
        (Draw 6 0 (Some normalShader) (Some (0.8, 0.4, 0.2, 1.0)))"
      by (elim conjE)
    with ok show ?thesis
      unfolding frames by (simp add: numeral_2_eq_2)
  qed
  with ok show ?thesis
    by blast
qed

text \<open>
  For comparison, the second quad of a run in which everything links: it is drawn with the
  wave program, and what it shows is the wave stage applied to the clock value written in
  that frame, so it differs from frame to frame wherever the wave stage depends on
  \<open>time\<close>.
\<close>

lemma wave_quad_example:
  "filter (\<lambda>d. byte_offset d \<noteq> 0) (draws wave TexCoord render_init (fst (main 3 example_linked))) =
     [Draw 6 (6 * sizeof_unsigned_int) (Some waveShader) (Some (wave [0 \<mapsto> 0] TexCoord)),
      Draw 6 (6 * sizeof_unsigned_int) (Some waveShader) (Some (wave [0 \<mapsto> 1 / 60] TexCoord))]"
proof -
  have closes: "window_created example_linked" "glad_loaded example_linked"
    "\<forall>k<2. \<not> should_close example_linked k" "should_close example_linked 2" "(2::nat) < 3"
    by (simp_all add: example_linked_def example_run_def)
  have loop: "loop_calls example_linked 2 =
      glfwWindowShouldClose False # frame example_linked 0 @
      glfwWindowShouldClose False # frame example_linked 1"
    by (simp add: loop_calls_def upt_conv_Cons)
  have st: "fragment_of (fold render_step (create_window example_linked @ load_gl example_linked @
        build_shaders example_linked @ setup_geometry) render_init) waveShader = Some waveFragSource"
    "fragment_of (fold render_step (create_window example_linked @ load_gl example_linked @
        build_shaders example_linked @ setup_geometry) render_init) normalShader = Some normalFragSource"
    "linked (fold render_step (create_window example_linked @ load_gl example_linked @
        build_shaders example_linked @ setup_geometry) render_init) waveShader"
    "linked (fold render_step (create_window example_linked @ load_gl example_linked @
        build_shaders example_linked @ setup_geometry) render_init) normalShader"
    "current (fold render_step (create_window example_linked @ load_gl example_linked @
        build_shaders example_linked @ setup_geometry) render_init) = None"
    "uniform (fold render_step (create_window example_linked @ load_gl example_linked @
        build_shaders example_linked @ setup_geometry) render_init) waveShader = (\<lambda>l. None)"
    by (simp_all add: create_window_def load_gl_def build_shaders_def setup_geometry_def
      fold_render_step_check render_step_def render_init_def example_linked_def example_run_def)
  define s0 where "s0 = fold render_step (create_window example_linked @ load_gl example_linked @
        build_shaders example_linked @ setup_geometry) render_init"
  have "draws wave TexCoord render_init (fst (main 3 example_linked)) =
      draws wave TexCoord s0 (loop_calls example_linked 2 @ glfwWindowShouldClose True # cleanup)"
    using main_left [OF closes] draws_append [of wave TexCoord render_init
        "create_window example_linked @ load_gl example_linked @
          build_shaders example_linked @ setup_geometry"] setup_draws [of wave TexCoord example_linked]
    by (simp add: s0_def)
  also have "filter (\<lambda>d. byte_offset d \<noteq> 0) \<dots> =
     [Draw 6 (6 * sizeof_unsigned_int) (Some waveShader) (Some (wave [0 \<mapsto> 0] TexCoord)),
      Draw 6 (6 * sizeof_unsigned_int) (Some waveShader) (Some (wave [0 \<mapsto> 1 / 60] TexCoord))]"
    using st unfolding s0_def [symmetric] loop
    by (simp add: frame_def cleanup_def drawn_def render_step_def fragment_stage_def
        sizeof_unsigned_int_def example_linked_def example_run_def)
  finally show ?thesis .
qed

end
